theory Spec2Isabelle
  imports Complex_Main "HOL-Library.Word"
begin

section \<open>Document values\<close>

text \<open>
  A document handed to the plugin is JSON data: strings, numbers, booleans, null, arrays and
  string-keyed objects. \<open>JUndefined\<close> is the value of an absent document and of a read
  of a missing member. The payload of a number is never inspected by the plugin. Strings
  are byte strings (the UTF-8 form of the JavaScript string).
\<close>

datatype jsval =
    JUndefined
  | JNull
  | JBool bool
  | JNum real
  | JStr string
  | JArr "jsval list"
  | JObj "(string \<times> jsval) list"

text \<open>JavaScript truthiness, as used by \<open>!doc\<close>, \<open>value && ...\<close> and \<open>draft || published\<close>.\<close>

fun truthy :: "jsval \<Rightarrow> bool" where
  "truthy JUndefined = False"
| "truthy JNull = False"
| "truthy (JBool b) = b"
| "truthy (JNum x) = (x \<noteq> 0)"
| "truthy (JStr s) = (s \<noteq> [])"
| "truthy (JArr xs) = True"
| "truthy (JObj kvs) = True"

text \<open>\<open>typeof value === 'object'\<close>: true of null, arrays and objects.\<close>

fun typeof_object :: "jsval \<Rightarrow> bool" where
  "typeof_object JNull = True"
| "typeof_object (JArr xs) = True"
| "typeof_object (JObj kvs) = True"
| "typeof_object v = False"

text \<open>Decimal rendering of an array index (the canonical form of an index key).\<close>

definition digit_char :: "nat \<Rightarrow> char" where
  "digit_char d = ''0123456789'' ! d"

fun dec :: "nat \<Rightarrow> string" where
  "dec n = (if n < 10 then [digit_char n] else dec (n div 10) @ [digit_char (n mod 10)])"

declare dec.simps [simp del]

text \<open>
  \<open>part in value\<close> on JSON data: the member names of an object; the canonical index
  strings below the length, and \<open>length\<close>, of an array. Members inherited from the
  built-in prototypes (\<open>constructor\<close>, \<open>toString\<close>, ...) are functions or prototype
  objects from which no string is reachable, so a path through them ends in null like a
  path through a missing key; they are not listed as keys here.
\<close>

definition array_index :: "jsval list \<Rightarrow> string \<Rightarrow> nat option" where
  "array_index xs k = List.find (\<lambda>i. dec i = k) [0..<length xs]"

fun has_key :: "string \<Rightarrow> jsval \<Rightarrow> bool" where
  "has_key k (JObj kvs) = (map_of kvs k \<noteq> None)"
| "has_key k (JArr xs) = (k = ''length'' \<or> array_index xs k \<noteq> None)"
| "has_key k v = False"

text \<open>\<open>value[part]\<close>.\<close>

fun get_member :: "jsval \<Rightarrow> string \<Rightarrow> jsval" where
  "get_member (JObj kvs) k = (case map_of kvs k of Some v \<Rightarrow> v | None \<Rightarrow> JUndefined)"
| "get_member (JArr xs) k =
     (case array_index xs k of
        Some i \<Rightarrow> xs ! i
      | None \<Rightarrow> if k = ''length'' then JNum (real (length xs)) else JUndefined)"
| "get_member v k = JUndefined"

section \<open>Slug resolver\<close>

text \<open>\<open>path.split('.')\<close>: the empty string splits into one empty segment.\<close>

fun split_dot :: "string \<Rightarrow> string list" where
  "split_dot [] = [[]]"
| "split_dot (c # cs) =
     (if c = CHR ''.'' then [] # split_dot cs
      else (c # hd (split_dot cs)) # tl (split_dot cs))"

text \<open>The \<open>for (const part of parts)\<close> loop of \<open>getSlugValue\<close> with the final type test.\<close>

fun walk_parts :: "string list \<Rightarrow> jsval \<Rightarrow> string option" where
  "walk_parts [] v = (case v of JStr s \<Rightarrow> Some s | _ \<Rightarrow> None)"
| "walk_parts (part # parts) v =
     (if truthy v \<and> typeof_object v \<and> has_key part v
      then walk_parts parts (get_member v part)
      else None)"

definition getSlugValue :: "jsval \<Rightarrow> string \<Rightarrow> string option" where
  "getSlugValue doc path =
     (if \<not> truthy doc \<or> path = [] then None
      else walk_parts (split_dot path) doc)"

subsection \<open>The resolver as the specification words it\<close>

text \<open>
  A value is a container holding a segment when it is an object with that member or an
  array with that index; \<open>descend_spec\<close> is one step of the descent, \<open>None\<close> when the
  current value is no such container.
\<close>

fun descend_spec :: "jsval \<Rightarrow> string \<Rightarrow> jsval option" where
  "descend_spec (JObj kvs) seg =
     (if seg \<in> fst ` set kvs then Some (get_member (JObj kvs) seg) else None)"
| "descend_spec (JArr xs) seg =
     (if seg = ''length'' \<or> seg \<in> dec ` {..<length xs}
      then Some (get_member (JArr xs) seg) else None)"
| "descend_spec v seg = None"

definition traverse_spec :: "string list \<Rightarrow> jsval \<Rightarrow> jsval option" where
  "traverse_spec segs doc = foldl (\<lambda>cur seg. Option.bind cur (\<lambda>v. descend_spec v seg)) (Some doc) segs"

definition doc_absent :: "jsval \<Rightarrow> bool" where
  "doc_absent doc = (doc = JUndefined \<or> doc = JNull)"

definition resolveSlug_spec :: "jsval \<Rightarrow> string \<Rightarrow> string option" where
  "resolveSlug_spec doc path =
     (if doc_absent doc \<or> path = [] then None
      else case traverse_spec (split_dot path) doc of
             Some (JStr s) \<Rightarrow> Some s
           | _ \<Rightarrow> None)"

section \<open>Secret generator\<close>

text \<open>
  The random source of the platform as \<open>generateUrlSecret\<close> sees it: either
  \<open>crypto.getRandomValues\<close> exists and fills index \<open>i\<close> of the 16-byte array with
  \<open>fill i\<close>, or it does not and the two calls of \<open>Math.random().toString(36)\<close> return
  the two given renderings.
\<close>

datatype random_source =
    Crypto "nat \<Rightarrow> 8 word"
  | NoCrypto string string

text \<open>\<open>array[i].toString(16).padStart(2, '0')\<close> on a byte.\<close>

definition hex_digit :: "nat \<Rightarrow> char" where
  "hex_digit d = ''0123456789abcdef'' ! d"

definition toString16 :: "nat \<Rightarrow> string" where
  "toString16 n = (if n < 16 then [hex_digit n] else [hex_digit (n div 16), hex_digit (n mod 16)])"

definition padStart2 :: "string \<Rightarrow> string" where
  "padStart2 s = replicate (2 - length s) CHR ''0'' @ s"

text \<open>
  \<open>btoa\<close>: standard base64 of the code units of the string, three bytes to four
  characters, padded with \<open>=\<close>.
\<close>

definition b64_alphabet :: string where
  "b64_alphabet = ''ABCDEFGHIJKLMNOPQRSTUVWXYZabcdefghijklmnopqrstuvwxyz0123456789+/''"

definition b64_char :: "nat \<Rightarrow> char" where
  "b64_char i = b64_alphabet ! i"

fun b64_encode :: "nat list \<Rightarrow> string" where
  "b64_encode [] = []"
| "b64_encode [a] =
     [b64_char (a div 4), b64_char ((a mod 4) * 16), CHR ''='', CHR ''='']"
| "b64_encode [a, b] =
     [b64_char (a div 4), b64_char ((a mod 4) * 16 + b div 16),
      b64_char ((b mod 16) * 4), CHR ''='']"
| "b64_encode (a # b # c # rest) =
     [b64_char (a div 4), b64_char ((a mod 4) * 16 + b div 16),
      b64_char ((b mod 16) * 4 + c div 64), b64_char (c mod 64)] @ b64_encode rest"

definition btoa :: "string \<Rightarrow> string" where
  "btoa s = b64_encode (map of_char s)"

text \<open>
  \<open>.replace(/\+/g, '-')\<close>, \<open>.replace(/\//g, '_')\<close> and \<open>.replace(/[=]+$/, '')\<close>.
\<close>

definition replace_all :: "char \<Rightarrow> char \<Rightarrow> string \<Rightarrow> string" where
  "replace_all a b s = map (\<lambda>c. if c = a then b else c) s"

definition strip_trailing_eq :: "string \<Rightarrow> string" where
  "strip_trailing_eq s = rev (dropWhile (\<lambda>c. c = CHR ''='') (rev s))"

text \<open>
  \<open>new Uint8Array(16)\<close> after \<open>crypto.getRandomValues\<close>, and the loop that appends
  the two hexadecimal digits of every byte to \<open>key\<close>.
\<close>

definition random_array :: "(nat \<Rightarrow> 8 word) \<Rightarrow> 8 word list" where
  "random_array fill = map fill [0..<16]"

definition hex_key :: "8 word list \<Rightarrow> string" where
  "hex_key array = foldl (\<lambda>key b. key @ padStart2 (toString16 (unat b))) [] array"

text \<open>\<open>.substring(2, 15)\<close>.\<close>

definition substring_2_15 :: "string \<Rightarrow> string" where
  "substring_2_15 s = take 13 (drop 2 s)"

fun generateUrlSecret :: "random_source \<Rightarrow> string" where
  "generateUrlSecret (Crypto fill) =
     strip_trailing_eq
       (replace_all CHR ''/'' CHR ''_''
         (replace_all CHR ''+'' CHR ''-'' (btoa (hex_key (random_array fill)))))"
| "generateUrlSecret (NoCrypto r1 r2) = substring_2_15 r1 @ substring_2_15 r2"

text \<open>The URL-safe characters: alphanumerics, \<open>-\<close> and \<open>_\<close>.\<close>

definition url_safe_char :: "char \<Rightarrow> bool" where
  "url_safe_char c =
     (c \<in> set ''ABCDEFGHIJKLMNOPQRSTUVWXYZabcdefghijklmnopqrstuvwxyz0123456789-_'')"

text \<open>The two substitutions of the base64url alphabet, as one character map.\<close>

definition subst_char :: "char \<Rightarrow> char" where
  "subst_char c = (if c = CHR ''+'' then CHR ''-'' else if c = CHR ''/'' then CHR ''_'' else c)"

section \<open>Configuration\<close>

text \<open>
  A thrown value: an \<open>Error\<close> with its message, or anything else
  (\<open>error instanceof Error\<close> is false).
\<close>

datatype exn = Error string | Thrown

fun exn_message :: "exn \<Rightarrow> string" where
  "exn_message (Error m) = m"
| "exn_message Thrown = ''An unknown error occurred''"

text \<open>
  \<open>urlPrefix\<close> is a string or a function of the document; the function is user code
  and may throw.
\<close>

datatype url_prefix = PrefixString string | PrefixFunction "jsval \<Rightarrow> exn + string"

record PreviewTypeConfig =
  tc_type :: string
  tc_urlPrefix :: "url_prefix option"
  tc_slugField :: "string option"

record EasyPreviewConfig =
  cfg_previewUrl :: "string option"
  cfg_draftRoute :: "string option"
  cfg_slugField :: "string option"
  cfg_types :: "PreviewTypeConfig list"

text \<open>
  The lookup map built by \<open>types.forEach(... typeConfigMap.set(typeConfig.type, typeConfig))\<close>:
  a later entry of the same type replaces an earlier one.
\<close>

definition typeConfigMap :: "PreviewTypeConfig list \<Rightarrow> (string \<rightharpoonup> PreviewTypeConfig)" where
  "typeConfigMap ts = foldl (\<lambda>m typeConfig. m(tc_type typeConfig \<mapsto> typeConfig)) Map.empty ts"

text \<open>
  The closure of \<open>easyPreview(config)\<close>: the destructured configuration with its defaults
  (the first argument is \<open>process.env.SANITY_STUDIO_PREVIEW_URL\<close>, absent when there is
  no \<open>process\<close> or no such variable), the lookup map, and whether the missing
  \<open>previewUrl\<close> was warned about on the console.
\<close>

record plugin =
  previewUrl :: "string option"
  draftRoute :: string
  typeConfigs :: "string \<rightharpoonup> PreviewTypeConfig"
  config :: EasyPreviewConfig
  startup_warning :: bool

definition easyPreview :: "string option \<Rightarrow> EasyPreviewConfig \<Rightarrow> plugin" where
  "easyPreview env_preview_url cfg =
     (let url = (case cfg_previewUrl cfg of Some u \<Rightarrow> Some u | None \<Rightarrow> env_preview_url)
      in \<lparr> previewUrl = url,
           draftRoute = (case cfg_draftRoute cfg of Some r \<Rightarrow> r | None \<Rightarrow> ''/api/draft''),
           typeConfigs = typeConfigMap (cfg_types cfg),
           config = cfg,
           startup_warning = (url = None \<or> url = Some []) \<rparr>)"

text \<open>\<open>a || b\<close> on an optional string: the empty string is falsy.\<close>

definition or_else :: "string option \<Rightarrow> string \<Rightarrow> string" where
  "or_else a b = (case a of Some s \<Rightarrow> if s = [] then b else s | None \<Rightarrow> b)"

section \<open>URL objects\<close>

text \<open>
  A parsed URL as the handler uses it: the serialisation of everything before the query
  (scheme, authority and path), the list of the query's name-value pairs, and the
  fragment with its \<open>#\<close> (empty when there is none). The constructor
  \<open>new URL(route, base)\<close> belongs to the platform and is a parameter of the model
  (\<open>url_parse\<close> below); what the handler does to the object is modelled here:
  \<open>searchParams.set\<close>, \<open>searchParams.get\<close> and \<open>toString\<close> with the
  \<open>application/x-www-form-urlencoded\<close> serialiser.
\<close>

record url =
  endpoint :: string
  searchParams :: "(string \<times> string) list"
  hash :: string

text \<open>
  The serialiser leaves alphanumerics and \<open>* - . _\<close> as they are, writes a space as
  \<open>+\<close> and every other byte as \<open>%XX\<close> in upper-case hexadecimal.
\<close>

definition hex_upper :: "nat \<Rightarrow> char" where
  "hex_upper d = ''0123456789ABCDEF'' ! d"

definition urlencoded_plain :: "char \<Rightarrow> bool" where
  "urlencoded_plain c =
     (c \<in> set ''ABCDEFGHIJKLMNOPQRSTUVWXYZabcdefghijklmnopqrstuvwxyz0123456789*-._'')"

definition urlencode_byte :: "char \<Rightarrow> string" where
  "urlencode_byte c =
     (if urlencoded_plain c then [c]
      else if c = CHR '' '' then ''+''
      else [CHR ''%'', hex_upper (of_char c div 16), hex_upper (of_char c mod 16)])"

definition urlencode :: "string \<Rightarrow> string" where
  "urlencode s = concat (map urlencode_byte s)"

fun join_amp :: "string list \<Rightarrow> string" where
  "join_amp [] = []"
| "join_amp [x] = x"
| "join_amp (x # y # ys) = x @ ''&'' @ join_amp (y # ys)"

definition urlencoded_serialize :: "(string \<times> string) list \<Rightarrow> string" where
  "urlencoded_serialize ps = join_amp (map (\<lambda>(n, v). urlencode n @ ''='' @ urlencode v) ps)"

text \<open>
  \<open>searchParams.set(name, value)\<close>: the first pair of that name takes the value and the
  other pairs of that name are removed; without such a pair a new one is appended.
\<close>

fun set_first :: "string \<Rightarrow> string \<Rightarrow> (string \<times> string) list \<Rightarrow> (string \<times> string) list" where
  "set_first n v [] = []"
| "set_first n v ((k, x) # ps) =
     (if k = n then (k, v) # filter (\<lambda>p. fst p \<noteq> n) ps else (k, x) # set_first n v ps)"

definition searchParams_set :: "string \<Rightarrow> string \<Rightarrow> url \<Rightarrow> url" where
  "searchParams_set n v u =
     u\<lparr>searchParams :=
         (if n \<in> set (map fst (searchParams u)) then set_first n v (searchParams u)
          else searchParams u @ [(n, v)])\<rparr>"


definition url_toString :: "url \<Rightarrow> string" where
  "url_toString u =
     endpoint u
     @ (if searchParams u = [] then [] else ''?'' @ urlencoded_serialize (searchParams u))
     @ hash u"

section \<open>Dataset\<close>

text \<open>
  The secret document the handler writes (\<open>doc_id\<close> and \<open>doc_type\<close> are its
  \<open>_id\<close> and \<open>_type\<close>), and a document as the dataset stores it, with the
  \<open>_updatedAt\<close> timestamp in seconds that the dataset sets on every write.
\<close>

record secretDoc =
  doc_id :: string
  doc_type :: string
  secret :: string
  source :: string
  studioUrl :: string

record stored_doc =
  sd_id :: string
  sd_type :: string
  sd_updatedAt :: rat
  sd_attrs :: "(string \<times> jsval) list"

section \<open>The dataset's query language\<close>

text \<open>
  The cleanup hands the dataset a query text; which documents go is decided by the
  dataset's reading of that text. The query language (GROQ) belongs to the dataset, not
  to the plugin; the fragment the plugin's query lies in is modelled here, so that the
  effect of the delete is computed from the text the source sends. A text or a value
  outside the fragment is \<open>None\<close>.

  Tokens: symbols, identifiers, double-quoted strings without escapes, and unsigned
  whole numbers; blanks separate.
\<close>

datatype groq_token = TSym string | TIdent string | TStr string | TNum nat

definition is_digit :: "char \<Rightarrow> bool" where
  "is_digit c = (c \<in> set ''0123456789'')"

definition is_ident_start :: "char \<Rightarrow> bool" where
  "is_ident_start c = (c \<in> set ''ABCDEFGHIJKLMNOPQRSTUVWXYZabcdefghijklmnopqrstuvwxyz_'')"

definition is_ident_char :: "char \<Rightarrow> bool" where
  "is_ident_char c = (is_ident_start c \<or> is_digit c)"

definition digit_value :: "char \<Rightarrow> nat" where
  "digit_value c = of_char c - 48"

definition number_value :: "string \<Rightarrow> nat" where
  "number_value ds = foldl (\<lambda>n c. 10 * n + digit_value c) 0 ds"

definition push_token :: "groq_token \<Rightarrow> groq_token list option \<Rightarrow> groq_token list option" where
  "push_token t r = map_option (\<lambda>ts. t # ts) r"

fun groq_lex :: "nat \<Rightarrow> string \<Rightarrow> groq_token list option" where
  "groq_lex fuel [] = Some []"
| "groq_lex 0 (c # cs) = None"
| "groq_lex (Suc fuel) (c # cs) =
     (if c = CHR '' '' then groq_lex fuel cs
      else if take 2 (c # cs) \<in> set [''=='', ''!='', ''<='', ''>='', ''&&'', ''||'']
      then push_token (TSym (take 2 (c # cs))) (groq_lex fuel (drop 1 cs))
      else if c \<in> set ''*[]()<>+-''
      then push_token (TSym [c]) (groq_lex fuel cs)
      else if c = CHR 0x22
      then (if CHR 0x22 \<in> set cs \<and> CHR 0x5C \<notin> set (takeWhile (\<lambda>x. x \<noteq> CHR 0x22) cs)
            then push_token (TStr (takeWhile (\<lambda>x. x \<noteq> CHR 0x22) cs))
                   (groq_lex fuel (drop 1 (dropWhile (\<lambda>x. x \<noteq> CHR 0x22) cs)))
            else None)
      else if is_digit c
      then push_token (TNum (number_value (takeWhile is_digit (c # cs))))
             (groq_lex fuel (dropWhile is_digit cs))
      else if is_ident_start c
      then push_token (TIdent (takeWhile is_ident_char (c # cs)))
             (groq_lex fuel (dropWhile is_ident_char cs))
      else None)"

text \<open>
  Expressions: attributes of the document, string and number literals, calls with no or
  one argument, and binary operators. In rising order of binding strength the operators
  are \<open>||\<close>, then \<open>&&\<close>, then the comparisons, then \<open>+\<close> and \<open>-\<close>; the
  fragment has at most one operator of a level in a row. \<open>parse_expr fuel l\<close> reads an
  expression of level \<open>l\<close> (level 0: a literal, an attribute or a call) and returns it
  with the remaining tokens. A query is \<open>*[\<close>, a filter expression and \<open>]\<close>.
\<close>

datatype groq_expr =
    Attr string
  | StrLit string
  | NumLit nat
  | Call0 string
  | Call1 string groq_expr
  | Binary string groq_expr groq_expr

definition level_ops :: "nat \<Rightarrow> string list" where
  "level_ops l =
     (if l = 1 then [''+'', ''-'']
      else if l = 2 then [''=='', ''!='', ''<'', ''<='', ''>'', ''>='']
      else if l = 3 then [''&&'']
      else if l = 4 then [''||'']
      else [])"

fun parse_expr :: "nat \<Rightarrow> nat \<Rightarrow> groq_token list \<Rightarrow> (groq_expr \<times> groq_token list) option" where
  "parse_expr fuel 0 toks =
     (case toks of
        [] \<Rightarrow> None
      | t # r \<Rightarrow>
          (case t of
             TStr s \<Rightarrow> Some (StrLit s, r)
           | TNum k \<Rightarrow> Some (NumLit k, r)
           | TSym s \<Rightarrow> None
           | TIdent f \<Rightarrow>
               (if take 2 r = [TSym ''('', TSym '')''] then Some (Call0 f, drop 2 r)
                else if take 1 r = [TSym ''(''] then
                  (case fuel of
                     0 \<Rightarrow> None
                   | Suc n \<Rightarrow>
                       (case parse_expr n 4 (drop 1 r) of
                          None \<Rightarrow> None
                        | Some (a, r') \<Rightarrow>
                            if take 1 r' = [TSym '')''] then Some (Call1 f a, drop 1 r')
                            else None))
                else Some (Attr f, r))))"
| "parse_expr fuel (Suc l) toks =
     (case parse_expr fuel l toks of
        None \<Rightarrow> None
      | Some (a, r) \<Rightarrow>
          (case r of
             TSym s # r' \<Rightarrow>
               (if s \<in> set (level_ops (Suc l)) then
                  (case parse_expr fuel l r' of
                     None \<Rightarrow> None
                   | Some (b, r'') \<Rightarrow> Some (Binary s a b, r''))
                else Some (a, r))
           | _ \<Rightarrow> Some (a, r)))"

definition groq_parse :: "string \<Rightarrow> groq_expr option" where
  "groq_parse q =
     (case groq_lex (length q) q of
        None \<Rightarrow> None
      | Some toks \<Rightarrow>
          if take 2 toks = [TSym ''*'', TSym ''[''] then
            (case parse_expr (length toks) 4 (drop 2 toks) of
               None \<Rightarrow> None
             | Some (e, r) \<Rightarrow> if r = [TSym '']''] then Some e else None)
          else None)"

text \<open>
  Values: null, booleans, numbers, strings, and instants in seconds; \<open>GTimeText t\<close> is
  a string that is the timestamp text of the instant \<open>t\<close> (the value of \<open>_updatedAt\<close>
  and of \<open>now()\<close>), which \<open>dateTime\<close> turns into the instant. Subtracting a number
  from an instant moves it by that many seconds. A filter selects the documents on which
  it is true; on null it selects nothing.
\<close>

datatype groq_value =
    GNull
  | GBool bool
  | GNumber rat
  | GString string
  | GTimeText rat
  | GDateTime rat

fun groq_attr :: "stored_doc \<Rightarrow> string \<Rightarrow> groq_value option" where
  "groq_attr d a =
     (if a = ''_id'' then Some (GString (sd_id d))
      else if a = ''_type'' then Some (GString (sd_type d))
      else if a = ''_updatedAt'' then Some (GTimeText (sd_updatedAt d))
      else case map_of (sd_attrs d) a of
             None \<Rightarrow> Some GNull
           | Some (JStr s) \<Rightarrow> Some (GString s)
           | Some (JBool b) \<Rightarrow> Some (GBool b)
           | Some JNull \<Rightarrow> Some GNull
           | Some v \<Rightarrow> None)"

fun groq_dateTime :: "groq_value \<Rightarrow> groq_value option" where
  "groq_dateTime (GTimeText t) = Some (GDateTime t)"
| "groq_dateTime (GDateTime t) = Some (GDateTime t)"
| "groq_dateTime v = None"

fun groq_arith :: "string \<Rightarrow> groq_value \<Rightarrow> groq_value \<Rightarrow> groq_value option" where
  "groq_arith op (GNumber x) (GNumber y) =
     (if op = ''+'' then Some (GNumber (x + y)) else if op = ''-'' then Some (GNumber (x - y)) else None)"
| "groq_arith op (GDateTime t) (GNumber y) =
     (if op = ''+'' then Some (GDateTime (t + y)) else if op = ''-'' then Some (GDateTime (t - y))
      else None)"
| "groq_arith op (GDateTime t) (GDateTime u) =
     (if op = ''-'' then Some (GNumber (t - u)) else None)"
| "groq_arith op a b = None"

definition groq_order :: "string \<Rightarrow> rat \<Rightarrow> rat \<Rightarrow> groq_value option" where
  "groq_order op x y =
     (if op = ''=='' then Some (GBool (x = y))
      else if op = ''!='' then Some (GBool (x \<noteq> y))
      else if op = ''<'' then Some (GBool (x < y))
      else if op = ''<='' then Some (GBool (x \<le> y))
      else if op = ''>'' then Some (GBool (x > y))
      else if op = ''>='' then Some (GBool (x \<ge> y))
      else None)"

fun groq_compare :: "string \<Rightarrow> groq_value \<Rightarrow> groq_value \<Rightarrow> groq_value option" where
  "groq_compare op (GNumber x) (GNumber y) = groq_order op x y"
| "groq_compare op (GDateTime t) (GDateTime u) = groq_order op t u"
| "groq_compare op (GString s) (GString s') =
     (if op = ''=='' then Some (GBool (s = s')) else if op = ''!='' then Some (GBool (s \<noteq> s'))
      else None)"
| "groq_compare op (GBool b) (GBool b') =
     (if op = ''=='' then Some (GBool (b = b')) else if op = ''!='' then Some (GBool (b \<noteq> b'))
      else None)"
| "groq_compare op a b = None"

fun groq_logic :: "string \<Rightarrow> groq_value \<Rightarrow> groq_value \<Rightarrow> groq_value option" where
  "groq_logic op (GBool b) (GBool b') =
     (if op = ''&&'' then Some (GBool (b \<and> b')) else if op = ''||'' then Some (GBool (b \<or> b'))
      else None)"
| "groq_logic op a b = None"

definition groq_binary :: "string \<Rightarrow> groq_value \<Rightarrow> groq_value \<Rightarrow> groq_value option" where
  "groq_binary op a b =
     (if op \<in> set (level_ops 1) then groq_arith op a b
      else if op \<in> set (level_ops 2) then groq_compare op a b
      else groq_logic op a b)"

fun groq_eval :: "rat \<Rightarrow> stored_doc \<Rightarrow> groq_expr \<Rightarrow> groq_value option" where
  "groq_eval now d (Attr a) = groq_attr d a"
| "groq_eval now d (StrLit s) = Some (GString s)"
| "groq_eval now d (NumLit k) = Some (GNumber (of_nat k))"
| "groq_eval now d (Call0 f) = (if f = ''now'' then Some (GTimeText now) else None)"
| "groq_eval now d (Call1 f a) =
     (if f = ''dateTime'' then Option.bind (groq_eval now d a) groq_dateTime else None)"
| "groq_eval now d (Binary op a b) =
     Option.bind (groq_eval now d a) (\<lambda>x. Option.bind (groq_eval now d b) (groq_binary op x))"

definition groq_selects :: "rat \<Rightarrow> groq_expr \<Rightarrow> stored_doc \<Rightarrow> bool option" where
  "groq_selects now e d =
     (case groq_eval now d e of
        Some (GBool b) \<Rightarrow> Some b
      | Some GNull \<Rightarrow> Some False
      | _ \<Rightarrow> None)"

section \<open>Effects\<close>

text \<open>
  What a run does is recorded as a list of events, in the order of the calls:
  \<open>toast.push\<close> with status, title and description; the calls of \<open>getSlugValue\<close>
  (with the path) and \<open>generateUrlSecret\<close>; the commit of the
  \<open>createOrReplace\<close> transaction with its tag; \<open>client.delete\<close> with its query;
  the call of a function-valued \<open>urlPrefix\<close>; \<open>new URL(route, base)\<close>;
  \<open>window.open\<close> with the URL text and the target; \<open>console.error\<close> and
  \<open>console.warn\<close> with the thrown value. The calls of the plugin's own pure
  functions are recorded so that statements can count them. The notification sink and
  the console are taken not to throw.
\<close>

datatype toast_status = StatusError | StatusSuccess

datatype event =
    ToastPush toast_status string string
  | CallGetSlugValue string
  | CallGenerateUrlSecret
  | Commit secretDoc string
  | Delete string
  | CallUrlPrefix
  | NewURL string "string option"
  | WindowOpen string string
  | ConsoleError exn
  | ConsoleWarn exn

text \<open>Tests on events, and the position of the first event that passes a test.\<close>

fun is_Commit :: "event \<Rightarrow> bool" where
  "is_Commit (Commit d tag) = True"
| "is_Commit e = False"

fun is_Delete :: "event \<Rightarrow> bool" where
  "is_Delete (Delete q) = True"
| "is_Delete e = False"

fun is_NewURL :: "event \<Rightarrow> bool" where
  "is_NewURL (NewURL r b) = True"
| "is_NewURL e = False"

fun is_WindowOpen :: "event \<Rightarrow> bool" where
  "is_WindowOpen (WindowOpen h t) = True"
| "is_WindowOpen e = False"

fun is_ToastPush :: "event \<Rightarrow> bool" where
  "is_ToastPush (ToastPush s t d) = True"
| "is_ToastPush e = False"

fun is_CallUrlPrefix :: "event \<Rightarrow> bool" where
  "is_CallUrlPrefix CallUrlPrefix = True"
| "is_CallUrlPrefix e = False"

fun is_ConsoleWarn :: "event \<Rightarrow> bool" where
  "is_ConsoleWarn (ConsoleWarn e) = True"
| "is_ConsoleWarn e = False"

definition index_where :: "(event \<Rightarrow> bool) \<Rightarrow> event list \<Rightarrow> nat" where
  "index_where P tr = length (takeWhile (\<lambda>e. \<not> P e) tr)"

text \<open>
  The surroundings of one preview request: the random source, the identifier \<open>uuid()\<close>
  returns, \<open>window.location.origin\<close> (absent when there is no \<open>window\<close>), the
  platform's URL constructor (\<open>Inl\<close> when it throws), whether the commit and the delete
  fail and with what, whether a failing \<open>client.delete\<close> throws in the caller's turn
  (instead of rejecting the promise it returns), and the dataset's clock in seconds.
\<close>

record env =
  random :: random_source
  uuid :: string
  window_origin :: "string option"
  url_parse :: "string \<Rightarrow> string option \<Rightarrow> exn + url"
  commit_fails :: "exn option"
  delete_fails :: "exn option"
  delete_throws_in_turn :: bool
  clock :: rat

text \<open>A committed \<open>createOrReplace\<close>: the document replaces any stored one of its id.\<close>

definition stored_secret :: "rat \<Rightarrow> secretDoc \<Rightarrow> stored_doc" where
  "stored_secret now d =
     \<lparr> sd_id = doc_id d, sd_type = doc_type d, sd_updatedAt = now,
       sd_attrs = [(''secret'', JStr (secret d)), (''source'', JStr (source d)),
                   (''studioUrl'', JStr (studioUrl d))] \<rparr>"

definition createOrReplace :: "rat \<Rightarrow> secretDoc \<Rightarrow> stored_doc list \<Rightarrow> stored_doc list" where
  "createOrReplace now d ds = filter (\<lambda>s. sd_id s \<noteq> doc_id d) ds @ [stored_secret now d]"

text \<open>The query of the cleanup, as the source writes it (line 85).\<close>

definition cleanup_query :: string where
  "cleanup_query =
     ''*[_type == '' @ [CHR 0x22] @ ''sanity.previewUrlSecret'' @ [CHR 0x22]
       @ '' && dateTime(_updatedAt) <= dateTime(now()) - 3600]''"

text \<open>
  \<open>client.delete({query})\<close>: the request fails, or the dataset reads the query at its
  clock and removes every document the query selects. A query outside the modelled
  fragment is answered like a failed request.
\<close>

definition client_delete :: "env \<Rightarrow> string \<Rightarrow> stored_doc list \<Rightarrow> exn + stored_doc list" where
  "client_delete E query ds =
     (case delete_fails E of
        Some e \<Rightarrow> Inl e
      | None \<Rightarrow>
          (case groq_parse query of
             None \<Rightarrow> Inl (Error ''query outside the modelled fragment'')
           | Some e \<Rightarrow>
               if list_all (\<lambda>d. groq_selects (clock E) e d \<noteq> None) ds
               then Inr (filter (\<lambda>d. groq_selects (clock E) e d \<noteq> Some True) ds)
               else Inl (Error ''query outside the modelled fragment'')))"

text \<open>
  A call of the asynchronous \<open>cleanupExpiredSecrets\<close>: the events of its start (the
  delete request is issued in the caller's turn), the events of its \<open>catch\<close> block
  (run when the request has settled, or at once when \<open>client.delete\<close> throws in the
  caller's turn), the dataset afterwards, and the rejection of the promise it returns
  (\<open>None\<close>: it resolves).
\<close>

record cleanup_run =
  issued :: "event list"
  settled :: "event list"
  dataset_after :: "stored_doc list"
  rejection :: "exn option"

definition cleanupExpiredSecrets :: "env \<Rightarrow> stored_doc list \<Rightarrow> cleanup_run" where
  "cleanupExpiredSecrets E ds =
     (case client_delete E cleanup_query ds of
        Inr ds' \<Rightarrow>
          \<lparr> issued = [Delete cleanup_query], settled = [], dataset_after = ds', rejection = None \<rparr>
      | Inl error \<Rightarrow>
          \<lparr> issued = [Delete cleanup_query], settled = [ConsoleWarn error], dataset_after = ds,
            rejection = None \<rparr>)"

section \<open>Preview action\<close>

text \<open>
  The properties of the action component (\<open>id\<close>, \<open>type\<close>, \<open>draft\<close>,
  \<open>published\<close>; an absent document is \<open>JNull\<close>), and a run of the handler: its
  own events with the start of the cleanup, the dataset after the effects it awaited, the
  cleanup it started and does not await, and the value thrown out of its \<open>try\<close> block
  (\<open>None\<close> once caught).
\<close>

record props =
  p_id :: string
  p_type :: string
  draft :: jsval
  published :: jsval

record handler_run =
  trace :: "event list"
  dataset :: "stored_doc list"
  background :: "cleanup_run option"
  thrown :: "exn option"

definition finished :: "event list \<Rightarrow> stored_doc list \<Rightarrow> cleanup_run option \<Rightarrow> handler_run" where
  "finished tr ds bg = \<lparr> trace = tr, dataset = ds, background = bg, thrown = None \<rparr>"

definition threw :: "event list \<Rightarrow> stored_doc list \<Rightarrow> cleanup_run option \<Rightarrow> exn \<Rightarrow> handler_run" where
  "threw tr ds bg e = \<lparr> trace = tr, dataset = ds, background = bg, thrown = Some e \<rparr>"

text \<open>The resolution of the URL prefix (lines 203 to 210).\<close>

definition resolve_urlPrefix :: "PreviewTypeConfig \<Rightarrow> jsval \<Rightarrow> event list \<times> (exn + string)" where
  "resolve_urlPrefix typeConfig document =
     (case tc_urlPrefix typeConfig of
        None \<Rightarrow> ([], Inr [])
      | Some (PrefixString s) \<Rightarrow> ([], Inr s)
      | Some (PrefixFunction f) \<Rightarrow> ([CallUrlPrefix], f document))"

text \<open>
  The construction of the preview URL (lines 212 to 218): the route is resolved against
  the base, the secret is set, the pathname is built from prefix and slug and set.
\<close>

definition previewPathname :: "string \<Rightarrow> string \<Rightarrow> string" where
  "previewPathname urlPrefix slug =
     (if urlPrefix \<noteq> [] then urlPrefix @ ''/'' @ slug else ''/'' @ slug)"

definition buildPreviewUrl ::
  "env \<Rightarrow> string \<Rightarrow> string option \<Rightarrow> string \<Rightarrow> string \<Rightarrow> string \<Rightarrow> exn + url" where
  "buildPreviewUrl E route base secret_value urlPrefix slug =
     (case url_parse E route base of
        Inl e \<Rightarrow> Inl e
      | Inr u \<Rightarrow>
          Inr (searchParams_set ''sanity-preview-pathname'' (previewPathname urlPrefix slug)
                (searchParams_set ''sanity-preview-secret'' secret_value u)))"

text \<open>
  The handler after the commit has succeeded (lines 198 to 227): the cleanup is started
  and not awaited, then the prefix is resolved, the URL built and opened.
\<close>

definition open_preview ::
  "plugin \<Rightarrow> env \<Rightarrow> PreviewTypeConfig \<Rightarrow> jsval \<Rightarrow> string \<Rightarrow> string \<Rightarrow> event list
     \<Rightarrow> stored_doc list \<Rightarrow> handler_run" where
  "open_preview P E typeConfig document slug secret_value tr ds =
     (let cleanup = cleanupExpiredSecrets E ds;
          tr1 = tr @ issued cleanup
      in case resolve_urlPrefix typeConfig document of
           (tp, Inl e) \<Rightarrow> threw (tr1 @ tp) ds (Some cleanup) e
         | (tp, Inr urlPrefix) \<Rightarrow>
             (let tr2 = tr1 @ tp @ [NewURL (draftRoute P) (previewUrl P)]
              in case buildPreviewUrl E (draftRoute P) (previewUrl P) secret_value urlPrefix slug of
                   Inl e \<Rightarrow> threw tr2 ds (Some cleanup) e
                 | Inr u \<Rightarrow>
                     (case window_origin E of
                        None \<Rightarrow> threw tr2 ds (Some cleanup) (Error ''window is not defined'')
                      | Some origin \<Rightarrow>
                          finished
                            (tr2 @ [WindowOpen (url_toString u) ''_blank'',
                                    ToastPush StatusSuccess ''Preview opened''
                                      ''Opening preview in new tab...''])
                            ds (Some cleanup))))"

text \<open>
  The handler once the slug is known (lines 179 to 196): the secret and the identifier
  are generated and the secret document is committed; the commit is awaited.
\<close>

definition issue_secret ::
  "plugin \<Rightarrow> env \<Rightarrow> props \<Rightarrow> PreviewTypeConfig \<Rightarrow> jsval \<Rightarrow> string \<Rightarrow> event list
     \<Rightarrow> stored_doc list \<Rightarrow> handler_run" where
  "issue_secret P E pr typeConfig document slug tr ds =
     (let secret_value = generateUrlSecret (random E);
          secretId = uuid E;
          secretDoc =
            \<lparr> doc_id = ''drafts.'' @ secretId,
              doc_type = ''sanity.previewUrlSecret'',
              secret = secret_value,
              source = p_id pr,
              studioUrl = (case window_origin E of None \<Rightarrow> [] | Some origin \<Rightarrow> origin) \<rparr>;
          tr1 = tr @ [CallGenerateUrlSecret, Commit secretDoc ''sanity.preview-url-secret'']
      in case commit_fails E of
           Some e \<Rightarrow> threw tr1 ds None e
         | None \<Rightarrow>
             open_preview P E typeConfig document slug secret_value tr1
               (createOrReplace (clock E) secretDoc ds))"

text \<open>The \<open>try\<close> block of \<open>handlePreview\<close> from its start (lines 146 to 177).\<close>

definition handlePreview_try :: "plugin \<Rightarrow> env \<Rightarrow> props \<Rightarrow> stored_doc list \<Rightarrow> handler_run" where
  "handlePreview_try P E pr ds =
     (case typeConfigs P (p_type pr) of
        None \<Rightarrow>
          finished
            [ToastPush StatusError ''Preview not configured''
               (''No preview configuration found for document type '' @ [CHR 0x22] @ p_type pr
                  @ [CHR 0x22])]
            ds None
      | Some typeConfig \<Rightarrow>
          (let document = (if truthy (draft pr) then draft pr else published pr)
           in if \<not> truthy document
              then finished
                     [ToastPush StatusError ''No document found''
                        ''Cannot preview: document not found'']
                     ds None
              else
                (let slugField =
                       or_else (tc_slugField typeConfig)
                         (or_else (cfg_slugField (config P)) ''slug.current'');
                     slug = getSlugValue document slugField;
                     tr = [CallGetSlugValue slugField]
                 in if slug = None \<or> slug = Some []
                    then finished
                           (tr @ [ToastPush StatusError ''Missing slug''
                                    (''Document missing required field: '' @ slugField)])
                           ds None
                    else issue_secret P E pr typeConfig document (the slug) tr ds)))"

text \<open>\<open>handlePreview\<close>: the \<open>try\<close> block and its \<open>catch\<close> (lines 228 to 235).\<close>

definition handlePreview :: "plugin \<Rightarrow> env \<Rightarrow> props \<Rightarrow> stored_doc list \<Rightarrow> handler_run" where
  "handlePreview P E pr ds =
     (let r = handlePreview_try P E pr ds
      in case thrown r of
           None \<Rightarrow> r
         | Some error \<Rightarrow>
             r\<lparr> trace := trace r @ [ConsoleError error,
                                    ToastPush StatusError ''Preview failed'' (exn_message error)],
                thrown := None \<rparr>)"

text \<open>
  A whole preview request: the handler runs to its end and the cleanup it started is
  not awaited. What the \<open>catch\<close> block of the cleanup logs comes after all events of
  the handler when the failure arrives through the promise, and right after the delete
  request, before the handler goes on, when \<open>client.delete\<close> throws in the caller's
  turn.
\<close>

definition preview_request ::
  "plugin \<Rightarrow> env \<Rightarrow> props \<Rightarrow> stored_doc list \<Rightarrow> event list \<times> stored_doc list" where
  "preview_request P E pr ds =
     (let r = handlePreview P E pr ds
      in case background r of
           None \<Rightarrow> (trace r, dataset r)
         | Some cleanup \<Rightarrow>
             (if delete_throws_in_turn E
              then take (Suc (index_where is_Delete (trace r))) (trace r) @ settled cleanup
                     @ drop (Suc (index_where is_Delete (trace r))) (trace r)
              else trace r @ settled cleanup,
              dataset_after cleanup))"

text \<open>
  What the component returns: nothing for a type without configuration, otherwise the
  action (its \<open>onHandle\<close> is \<open>handlePreview\<close>).
\<close>

record action =
  label :: string
  disabled :: bool

definition PreviewAction :: "plugin \<Rightarrow> props \<Rightarrow> action option" where
  "PreviewAction P pr =
     (if typeConfigs P (p_type pr) = None then None
      else Some \<lparr> label = ''Preview'',
                  disabled = (\<not> truthy (draft pr) \<and> \<not> truthy (published pr)) \<rparr>)"

section \<open>Worked configuration\<close>

text \<open>
  A concrete configuration, request and surroundings for the worked examples. The URL
  constructor is fixed at the inputs the examples use (a route with and without a query
  of its own against the base \<open>http://localhost:3000\<close>); any other input is answered
  with the constructor's \<open>TypeError\<close>.
\<close>

definition example_url_parse :: "string \<Rightarrow> string option \<Rightarrow> exn + url" where
  "example_url_parse route base =
     (if route = ''/api/draft'' \<and> base = Some ''http://localhost:3000''
      then Inr \<lparr> endpoint = ''http://localhost:3000/api/draft'', searchParams = [], hash = [] \<rparr>
      else if route = ''/api/draft?x=1'' \<and> base = Some ''http://localhost:3000''
      then Inr \<lparr> endpoint = ''http://localhost:3000/api/draft'', searchParams = [(''x'', ''1'')],
                 hash = [] \<rparr>
      else Inl (Error ''Invalid URL''))"

definition example_fill :: "nat \<Rightarrow> 8 word" where
  "example_fill i = of_nat (17 * i + 3)"

definition example_env :: env where
  "example_env =
     \<lparr> random = Crypto example_fill,
       uuid = ''7f3c'',
       window_origin = Some ''http://localhost:3333'',
       url_parse = example_url_parse,
       commit_fails = None,
       delete_fails = None,
       delete_throws_in_turn = False,
       clock = 100000 \<rparr>"

definition example_config :: EasyPreviewConfig where
  "example_config =
     \<lparr> cfg_previewUrl = Some ''http://localhost:3000'',
       cfg_draftRoute = None,
       cfg_slugField = None,
       cfg_types =
         [\<lparr> tc_type = ''page'', tc_urlPrefix = None, tc_slugField = None \<rparr>,
          \<lparr> tc_type = ''blogPost'', tc_urlPrefix = Some (PrefixString ''/blog''),
            tc_slugField = None \<rparr>] \<rparr>"

definition example_props :: props where
  "example_props =
     \<lparr> p_id = ''doc1'', p_type = ''blogPost'',
       draft = JObj [(''_type'', JStr ''blogPost''), (''slug'', JObj [(''current'', JStr ''hello'')])],
       published = JNull \<rparr>"

definition example_plugin :: plugin where
  "example_plugin = easyPreview None example_config"

definition example_dataset :: "stored_doc list" where
  "example_dataset =
     [\<lparr> sd_id = ''drafts.a'', sd_type = ''sanity.previewUrlSecret'', sd_updatedAt = 100000 - 3601,
        sd_attrs = [] \<rparr>,
      \<lparr> sd_id = ''drafts.b'', sd_type = ''sanity.previewUrlSecret'', sd_updatedAt = 100000 - 3600,
        sd_attrs = [] \<rparr>,
      \<lparr> sd_id = ''drafts.c'', sd_type = ''sanity.previewUrlSecret'', sd_updatedAt = 100000 - 3599,
        sd_attrs = [] \<rparr>,
      \<lparr> sd_id = ''page1'', sd_type = ''page'', sd_updatedAt = 100000 - 90000, sd_attrs = [] \<rparr>]"

definition example_secretDoc :: secretDoc where
  "example_secretDoc =
     \<lparr> doc_id = ''drafts.7f3c'', doc_type = ''sanity.previewUrlSecret'',
       secret = ''MDMxNDI1MzY0NzU4Njk3YThiOWNhZGJlY2ZlMGYxMDI'', source = ''doc1'',
       studioUrl = ''http://localhost:3333'' \<rparr>"

definition example_href :: string where
  "example_href = ''http://localhost:3000/api/draft?sanity-preview-secret=MDMxNDI1MzY0NzU4Njk3YThiOWNhZGJlY2ZlMGYxMDI&sanity-preview-pathname=%2Fblog%2Fhello''"

definition example_trace :: "event list" where
  "example_trace =
     [CallGetSlugValue ''slug.current'', CallGenerateUrlSecret,
      Commit example_secretDoc ''sanity.preview-url-secret'',
      Delete cleanup_query,
      NewURL ''/api/draft'' (Some ''http://localhost:3000''),
      WindowOpen example_href ''_blank'',
      ToastPush StatusSuccess ''Preview opened'' ''Opening preview in new tab...'']"

text \<open>
  A second configuration with a function-valued prefix,
  \<open>(doc) => typeof doc.category === 'string' ? '/products/' + doc.category : '/products'\<close>,
  and a per-type slug field; the request is for a document that has only a published
  version.
\<close>

definition category_prefix :: "jsval \<Rightarrow> exn + string" where
  "category_prefix doc =
     (case get_member doc ''category'' of
        JStr c \<Rightarrow> Inr (''/products/'' @ c)
      | _ \<Rightarrow> Inr ''/products'')"

definition product_config :: EasyPreviewConfig where
  "product_config =
     \<lparr> cfg_previewUrl = Some ''http://localhost:3000'',
       cfg_draftRoute = None,
       cfg_slugField = None,
       cfg_types =
         [\<lparr> tc_type = ''product'', tc_urlPrefix = Some (PrefixFunction category_prefix),
            tc_slugField = Some ''meta.slug'' \<rparr>] \<rparr>"

definition product_plugin :: plugin where
  "product_plugin = easyPreview None product_config"

definition product_props :: props where
  "product_props =
     \<lparr> p_id = ''doc2'', p_type = ''product'',
       draft = JNull,
       published = JObj [(''_type'', JStr ''product''), (''category'', JStr ''shoes''),
                         (''meta'', JObj [(''slug'', JStr ''runner'')])] \<rparr>"

definition product_secretDoc :: secretDoc where
  "product_secretDoc =
     \<lparr> doc_id = ''drafts.7f3c'', doc_type = ''sanity.previewUrlSecret'',
       secret = ''MDMxNDI1MzY0NzU4Njk3YThiOWNhZGJlY2ZlMGYxMDI'', source = ''doc2'',
       studioUrl = ''http://localhost:3333'' \<rparr>"

definition product_href :: string where
  "product_href = ''http://localhost:3000/api/draft?sanity-preview-secret=MDMxNDI1MzY0NzU4Njk3YThiOWNhZGJlY2ZlMGYxMDI&sanity-preview-pathname=%2Fproducts%2Fshoes%2Frunner''"

definition product_trace :: "event list" where
  "product_trace =
     [CallGetSlugValue ''meta.slug'', CallGenerateUrlSecret,
      Commit product_secretDoc ''sanity.preview-url-secret'',
      Delete cleanup_query,
      CallUrlPrefix,
      NewURL ''/api/draft'' (Some ''http://localhost:3000''),
      WindowOpen product_href ''_blank'',
      ToastPush StatusSuccess ''Preview opened'' ''Opening preview in new tab...'']"

section \<open>Notions used in the statements\<close>

text \<open>
  The pairs of a URL's query with a given name; two runs with the same main flow; the
  two hexadecimal digits of a byte; the reading of the cleanup's query.
\<close>

definition params_named :: "string \<Rightarrow> url \<Rightarrow> (string \<times> string) list" where
  "params_named n u = filter (\<lambda>p. fst p = n) (searchParams u)"

definition same_main_flow :: "handler_run \<Rightarrow> handler_run \<Rightarrow> bool" where
  "same_main_flow r r' =
     (trace r = trace r' \<and> dataset r = dataset r' \<and> thrown r = thrown r'
      \<and> (background r = None) = (background r' = None))"

definition hex_byte :: "nat \<Rightarrow> string" where
  "hex_byte n = [hex_digit (n div 16), hex_digit (n mod 16)]"

definition cleanup_filter :: groq_expr where
  "cleanup_filter =
     Binary ''&&''
       (Binary ''=='' (Attr ''_type'') (StrLit ''sanity.previewUrlSecret''))
       (Binary ''<='' (Call1 ''dateTime'' (Attr ''_updatedAt''))
          (Binary ''-'' (Call1 ''dateTime'' (Call0 ''now'')) (NumLit 3600)))"

section \<open>Properties of the slug resolver\<close>

lemma split_dot_nonempty: "split_dot p \<noteq> []"
  by (induction p) auto

lemma array_index_iff: "array_index xs k \<noteq> None \<longleftrightarrow> k \<in> dec ` {..<length xs}"
  by (auto simp: array_index_def find_None_iff)

lemma descend_spec_eq:
  "descend_spec v seg =
     (if truthy v \<and> typeof_object v \<and> has_key seg v then Some (get_member v seg) else None)"
proof (cases v)
  case (JObj kvs)
  then show ?thesis by (simp add: map_of_eq_None_iff)
next
  case (JArr xs)
  then show ?thesis using array_index_iff [of xs seg] by simp
qed simp_all

lemma foldl_bind_None:
  "foldl (\<lambda>cur seg. Option.bind cur (\<lambda>v. descend_spec v seg)) None segs = None"
  by (induction segs) simp_all

lemma walk_parts_traverse:
  "walk_parts segs v =
     (case traverse_spec segs v of Some (JStr s) \<Rightarrow> Some s | _ \<Rightarrow> None)"
proof (induction segs arbitrary: v)
  case Nil
  show ?case by (simp add: traverse_spec_def split: jsval.splits)
next
  case (Cons seg segs)
  show ?case
  proof (cases "truthy v \<and> typeof_object v \<and> has_key seg v")
    case True
    then have "descend_spec v seg = Some (get_member v seg)"
      by (simp add: descend_spec_eq)
    then have "traverse_spec (seg # segs) v = traverse_spec segs (get_member v seg)"
      by (simp add: traverse_spec_def)
    with True Cons.IH show ?thesis by simp
  next
    case False
    then have "descend_spec v seg = None"
      by (simp add: descend_spec_eq)
    then have "traverse_spec (seg # segs) v = None"
      by (simp add: traverse_spec_def foldl_bind_None)
    with False show ?thesis by auto
  qed
qed

lemma falsy_no_descent:
  assumes "\<not> truthy doc" and "segs \<noteq> []"
  shows "traverse_spec segs doc = None"
proof -
  obtain seg rest where segs: "segs = seg # rest"
    using assms(2) by (cases segs) auto
  have "descend_spec doc seg = None"
    using assms(1) by (simp add: descend_spec_eq)
  then show ?thesis
    by (simp add: segs traverse_spec_def foldl_bind_None)
qed

text \<open>
  C2. For every document and every dot-separated path the resolver of the source agrees
  with the resolver as the specification words it: null for an absent document or an empty
  path, otherwise a segment-by-segment descent that stops with null at the first value that
  is not a container holding the segment, and at the end the final value exactly when it
  is a string. On \<open>{slug: {current: "hello"}}\<close> with path \<open>slug.current\<close> the result is
  \<open>hello\<close>; on \<open>{slug: {current: 42}}\<close>, on \<open>{}\<close>, on an absent document and on the
  empty path it is null.
\<close>

theorem getSlugValue_resolves:
  "getSlugValue doc path = resolveSlug_spec doc path
   \<and> getSlugValue (JObj [(''slug'', JObj [(''current'', JStr ''hello'')])]) ''slug.current'' = Some ''hello''
   \<and> getSlugValue (JObj [(''slug'', JObj [(''current'', JNum 42)])]) ''slug.current'' = None
   \<and> getSlugValue (JObj []) ''slug.current'' = None
   \<and> getSlugValue JUndefined ''slug.current'' = None
   \<and> getSlugValue d '''' = None"
proof -
  have gen: "getSlugValue doc path = resolveSlug_spec doc path"
  proof (cases "truthy doc \<and> path \<noteq> []")
    case True
    then have "\<not> doc_absent doc" by (auto simp: doc_absent_def)
    with True show ?thesis
      by (simp add: getSlugValue_def resolveSlug_spec_def walk_parts_traverse)
  next
    case False
    show ?thesis
    proof (cases "path = []")
      case True
      then show ?thesis by (simp add: getSlugValue_def resolveSlug_spec_def)
    next
      case False
      with \<open>\<not> (truthy doc \<and> path \<noteq> [])\<close> have "\<not> truthy doc" by simp
      then have "traverse_spec (split_dot path) doc = None"
        by (rule falsy_no_descent) (rule split_dot_nonempty)
      with \<open>\<not> truthy doc\<close> show ?thesis
        by (simp add: getSlugValue_def resolveSlug_spec_def)
    qed
  qed
  have e1: "getSlugValue (JObj [(''slug'', JObj [(''current'', JStr ''hello'')])]) ''slug.current'' = Some ''hello''"
    by (simp add: getSlugValue_def)
  have e2: "getSlugValue (JObj [(''slug'', JObj [(''current'', JNum 42)])]) ''slug.current'' = None"
    by (simp add: getSlugValue_def)
  have e3: "getSlugValue (JObj []) ''slug.current'' = None"
    by (simp add: getSlugValue_def)
  have e4: "getSlugValue JUndefined ''slug.current'' = None"
    by (simp add: getSlugValue_def)
  have e5: "getSlugValue d '''' = None"
    by (simp add: getSlugValue_def)
  from gen e1 e2 e3 e4 e5 show ?thesis by blast
qed

text \<open>The resolver on a nested object and through an array index.\<close>

theorem getSlugValue_resolves_witness:
  "resolveSlug_spec (JObj [(''slug'', JObj [(''current'', JStr ''hello'')])]) ''slug.current''
     = Some ''hello''
   \<and> resolveSlug_spec (JObj [(''tags'', JArr [JStr ''a'', JStr ''b''])]) ''tags.1'' = Some ''b''"
proof -
  have "getSlugValue (JObj [(''tags'', JArr [JStr ''a'', JStr ''b''])]) ''tags.1'' = Some ''b''"
    by code_simp
  then show ?thesis
    using getSlugValue_resolves
      [of "JObj [(''slug'', JObj [(''current'', JStr ''hello'')])]" "''slug.current''"]
      getSlugValue_resolves [of "JObj [(''tags'', JArr [JStr ''a'', JStr ''b''])]" "''tags.1''"]
    by simp
qed

section \<open>Properties of the secret generator\<close>

lemma b64_alphabet_length: "length b64_alphabet = 64"
  by (simp add: b64_alphabet_def)

lemma b64_char_mem: "i < 64 \<Longrightarrow> b64_char i \<in> set b64_alphabet"
  by (simp add: b64_char_def b64_alphabet_length)

lemma b64_encode_shape:
  "\<forall>b\<in>set bs. b < 256 \<Longrightarrow>
   \<exists>body k. b64_encode bs = body @ replicate k CHR ''=''
     \<and> set body \<subseteq> set b64_alphabet \<and> length body = (4 * length bs + 2) div 3"
proof (induction bs rule: b64_encode.induct)
  case 1
  show ?case by simp
next
  case (2 a)
  then have a: "a < 256" by simp
  let ?body = "[b64_char (a div 4), b64_char ((a mod 4) * 16)]"
  have "b64_encode [a] = ?body @ replicate 2 CHR ''=''"
    by (simp add: numeral_2_eq_2)
  moreover have "set ?body \<subseteq> set b64_alphabet"
    using a by (auto intro!: b64_char_mem)
  moreover have "length ?body = (4 * length [a] + 2) div 3" by simp
  ultimately show ?case by blast
next
  case (3 a b)
  then have a: "a < 256" and b: "b < 256" by simp_all
  let ?body = "[b64_char (a div 4), b64_char ((a mod 4) * 16 + b div 16), b64_char ((b mod 16) * 4)]"
  have "b64_encode [a, b] = ?body @ replicate 1 CHR ''=''"
    by simp
  moreover have "set ?body \<subseteq> set b64_alphabet"
    using a b by (auto intro!: b64_char_mem)
  moreover have "length ?body = (4 * length [a, b] + 2) div 3" by simp
  ultimately show ?case by blast
next
  case (4 a b c rest)
  then have a: "a < 256" and b: "b < 256" and c: "c < 256" and r: "\<forall>x\<in>set rest. x < 256"
    by simp_all
  from "4.IH" [OF r] obtain body k where
    e: "b64_encode rest = body @ replicate k CHR ''=''" and
    s: "set body \<subseteq> set b64_alphabet" and
    l: "length body = (4 * length rest + 2) div 3"
    by blast
  let ?q = "[b64_char (a div 4), b64_char ((a mod 4) * 16 + b div 16),
      b64_char ((b mod 16) * 4 + c div 64), b64_char (c mod 64)]"
  have "b64_encode (a # b # c # rest) = (?q @ body) @ replicate k CHR ''=''"
    using e by simp
  moreover have "set ?q \<subseteq> set b64_alphabet"
    using a b c by (auto intro!: b64_char_mem)
  then have "set (?q @ body) \<subseteq> set b64_alphabet"
    using s by simp
  moreover have "length (?q @ body) = (4 * length (a # b # c # rest) + 2) div 3"
    using l by simp
  ultimately show ?case by blast
qed

lemma dropWhile_absent: "c \<notin> set ys \<Longrightarrow> dropWhile (\<lambda>x. x = c) ys = ys"
  by (cases ys) auto

lemma strip_trailing_eq_padding:
  assumes "CHR ''='' \<notin> set xs"
  shows "strip_trailing_eq (xs @ replicate k CHR ''='') = xs"
proof -
  have "CHR ''='' \<notin> set (rev xs)"
    using assms by simp
  then have "dropWhile (\<lambda>c. c = CHR ''='') (rev xs) = rev xs"
    by (rule dropWhile_absent)
  moreover have "dropWhile (\<lambda>c. c = CHR ''='') (replicate k CHR ''='' @ rev xs)
      = dropWhile (\<lambda>c. c = CHR ''='') (rev xs)"
    by (rule dropWhile_append2) simp
  ultimately show ?thesis
    by (simp add: strip_trailing_eq_def)
qed

lemma replace_all_padding:
  "a \<noteq> CHR ''='' \<Longrightarrow>
   replace_all a b (xs @ replicate k CHR ''='') = replace_all a b xs @ replicate k CHR ''=''"
  by (simp add: replace_all_def)

lemma replace_all_length: "length (replace_all a b xs) = length xs"
  by (simp add: replace_all_def)

lemma replace_all_subst:
  "replace_all CHR ''/'' CHR ''_'' (replace_all CHR ''+'' CHR ''-'' s) = map subst_char s"
  by (simp add: replace_all_def subst_char_def)

lemma substituted_alphabet_safe: "list_all (\<lambda>c. url_safe_char (subst_char c)) b64_alphabet"
  by (simp add: b64_alphabet_def subst_char_def url_safe_char_def)

lemma substituted_body_safe:
  assumes "set body \<subseteq> set b64_alphabet"
  shows "list_all url_safe_char (replace_all CHR ''/'' CHR ''_'' (replace_all CHR ''+'' CHR ''-'' body))"
proof -
  have "\<forall>c\<in>set b64_alphabet. url_safe_char (subst_char c)"
    using substituted_alphabet_safe by (simp only: list_all_iff)
  with assms have "\<forall>c\<in>set body. url_safe_char (subst_char c)"
    by blast
  then show ?thesis
    by (simp add: replace_all_subst list_all_iff)
qed

lemma url_safe_not_eq: "url_safe_char c \<Longrightarrow> c \<noteq> CHR ''=''"
  by (auto simp: url_safe_char_def)

lemma hex_key_concat:
  "foldl (\<lambda>key b. key @ padStart2 (toString16 (unat b))) acc array
     = acc @ concat (map (\<lambda>b. padStart2 (toString16 (unat b))) array)"
  by (induction array arbitrary: acc) simp_all

lemma hex_pair_length: "length (padStart2 (toString16 n)) = 2"
  by (simp add: padStart2_def toString16_def)

lemma hex_key_length: "length (hex_key array) = 2 * length array"
  by (induction array) (simp_all add: hex_key_def hex_key_concat hex_pair_length)

lemma btoa_shape:
  "\<exists>body k. btoa s = body @ replicate k CHR ''=''
     \<and> set body \<subseteq> set b64_alphabet \<and> length body = (4 * length s + 2) div 3"
proof -
  have "\<forall>b\<in>set (map of_char s). b < (256::nat)"
    by simp
  from b64_encode_shape [OF this] show ?thesis
    by (simp add: btoa_def)
qed

lemma base64url_of_btoa:
  "list_all url_safe_char
     (strip_trailing_eq (replace_all CHR ''/'' CHR ''_'' (replace_all CHR ''+'' CHR ''-'' (btoa s))))
   \<and> length (strip_trailing_eq (replace_all CHR ''/'' CHR ''_'' (replace_all CHR ''+'' CHR ''-'' (btoa s))))
       = (4 * length s + 2) div 3"
proof -
  obtain body k where e: "btoa s = body @ replicate k CHR ''=''"
    and sub: "set body \<subseteq> set b64_alphabet"
    and len: "length body = (4 * length s + 2) div 3"
    using btoa_shape by blast
  let ?body' = "replace_all CHR ''/'' CHR ''_'' (replace_all CHR ''+'' CHR ''-'' body)"
  have safe: "list_all url_safe_char ?body'"
    using sub by (rule substituted_body_safe)
  then have "CHR ''='' \<notin> set ?body'"
    using url_safe_not_eq by (auto simp: list_all_iff)
  then have "strip_trailing_eq (?body' @ replicate k CHR ''='') = ?body'"
    by (rule strip_trailing_eq_padding)
  then have "strip_trailing_eq (replace_all CHR ''/'' CHR ''_'' (replace_all CHR ''+'' CHR ''-'' (btoa s))) = ?body'"
    by (simp add: e replace_all_padding)
  with safe len show ?thesis
    by (simp add: replace_all_length)
qed

lemma generated_crypto:
  "list_all url_safe_char (generateUrlSecret (Crypto fill))
   \<and> length (generateUrlSecret (Crypto fill)) = 43"
  using base64url_of_btoa [of "hex_key (random_array fill)"]
  by (simp add: hex_key_length random_array_def)

lemma hex_pair: "padStart2 (toString16 n) = hex_byte n"
  by (simp add: padStart2_def toString16_def hex_byte_def hex_digit_def)

lemma hex_key_bytes: "hex_key array = concat (map (\<lambda>b. hex_byte (unat b)) array)"
  by (simp only: hex_key_def hex_key_concat) (simp add: hex_pair)

lemma example_secret:
  "generateUrlSecret (Crypto (\<lambda>i. of_nat (17 * i + 3))) = ''MDMxNDI1MzY0NzU4Njk3YThiOWNhZGJlY2ZlMGYxMDI''"
  by code_simp

lemma example_fill_secret:
  "generateUrlSecret (Crypto example_fill) = ''MDMxNDI1MzY0NzU4Njk3YThiOWNhZGJlY2ZlMGYxMDI''"
  by code_simp

text \<open>
  C7. With a secure random source the generator takes the 16 bytes, writes each as two
  hexadecimal digits, encodes that string as base64, replaces \<open>+\<close> by \<open>-\<close> and
  \<open>/\<close> by \<open>_\<close> and strips the trailing \<open>=\<close>; whatever the 16 bytes are, the
  result has 43 characters, all of them URL-safe (alphanumerics, \<open>-\<close>, \<open>_\<close>). Without
  a secure random source the result is the concatenation of the two fragments
  \<open>substring(2, 15)\<close> of the two pseudo-random renderings. The generator is a total
  function: no branch of it throws.
\<close>

theorem generated_secret_url_safe:
  "list_all url_safe_char (generateUrlSecret (Crypto fill))
   \<and> length (generateUrlSecret (Crypto fill)) = 43
   \<and> generateUrlSecret (Crypto fill) =
       strip_trailing_eq
         (map subst_char (btoa (concat (map (\<lambda>i. hex_byte (unat (fill i))) [0..<16]))))
   \<and> generateUrlSecret (NoCrypto r1 r2) = take 13 (drop 2 r1) @ take 13 (drop 2 r2)"
proof -
  have "concat (map (\<lambda>b. hex_byte (unat b)) (random_array fill))
      = concat (map (\<lambda>i. hex_byte (unat (fill i))) [0..<16])"
    by (simp only: random_array_def map_map comp_def)
  then have "generateUrlSecret (Crypto fill) =
       strip_trailing_eq
         (map subst_char (btoa (concat (map (\<lambda>i. hex_byte (unat (fill i))) [0..<16]))))"
    by (simp add: replace_all_subst hex_key_bytes)
  moreover have "generateUrlSecret (NoCrypto r1 r2) = take 13 (drop 2 r1) @ take 13 (drop 2 r2)"
    by (simp add: substring_2_15_def)
  ultimately show ?thesis
    using generated_crypto [of fill] by blast
qed

text \<open>The generator on the bytes 3, 20, 37, ... and on two base-36 renderings.\<close>

theorem generated_secret_url_safe_witness:
  "list_all url_safe_char ''MDMxNDI1MzY0NzU4Njk3YThiOWNhZGJlY2ZlMGYxMDI''
   \<and> length ''MDMxNDI1MzY0NzU4Njk3YThiOWNhZGJlY2ZlMGYxMDI'' = 43
   \<and> generateUrlSecret (NoCrypto ''0.4fzyo82mvyr'' ''0.9k2m1xq7c0b'') = ''4fzyo82mvyr9k2m1xq7c0b''"
proof -
  note t = generated_secret_url_safe
    [where fill = "\<lambda>i. of_nat (17 * i + 3)" and ?r1.0 = "''0.4fzyo82mvyr''"
       and ?r2.0 = "''0.9k2m1xq7c0b''"]
  from t have "list_all url_safe_char (generateUrlSecret (Crypto (\<lambda>i. of_nat (17 * i + 3))))"
    by (rule conjunct1)
  then have a: "list_all url_safe_char ''MDMxNDI1MzY0NzU4Njk3YThiOWNhZGJlY2ZlMGYxMDI''"
    by (simp only: example_secret)
  from t have "generateUrlSecret (NoCrypto ''0.4fzyo82mvyr'' ''0.9k2m1xq7c0b'')
      = take 13 (drop 2 ''0.4fzyo82mvyr'') @ take 13 (drop 2 ''0.9k2m1xq7c0b'')"
    by (rule conjunct2 [OF conjunct2 [OF conjunct2]])
  then have c: "generateUrlSecret (NoCrypto ''0.4fzyo82mvyr'' ''0.9k2m1xq7c0b'') = ''4fzyo82mvyr9k2m1xq7c0b''"
    by simp
  from a c show ?thesis by simp
qed

section \<open>The configuration lookup and the offered action\<close>

lemma typeConfigMap_foldl_dom:
  "dom (foldl (\<lambda>m typeConfig. m(tc_type typeConfig \<mapsto> typeConfig)) m0 ts) = dom m0 \<union> tc_type ` set ts"
  by (induction ts arbitrary: m0) auto

lemma typeConfigMap_dom: "dom (typeConfigMap ts) = tc_type ` set ts"
  by (simp add: typeConfigMap_def typeConfigMap_foldl_dom)

lemma typeConfigs_None_iff:
  "typeConfigs (easyPreview v cfg) t = None \<longleftrightarrow> t \<notin> tc_type ` set (cfg_types cfg)"
proof -
  have "typeConfigs (easyPreview v cfg) t = None \<longleftrightarrow> t \<notin> dom (typeConfigMap (cfg_types cfg))"
    by (simp add: easyPreview_def Let_def domIff)
  then show ?thesis
    by (simp only: typeConfigMap_dom)
qed

text \<open>
  C5, as the code has it. The preview action is offered exactly when the document type
  has a configuration entry; an offered action is labelled \<open>Preview\<close> and is disabled
  exactly when neither a draft nor a published document exists. Rendering the action has
  no effect of its own (no toast).
\<close>

theorem PreviewAction_offered:
  "(PreviewAction (easyPreview v cfg) pr \<noteq> None \<longleftrightarrow> p_type pr \<in> tc_type ` set (cfg_types cfg))
   \<and> (p_type pr \<in> tc_type ` set (cfg_types cfg) \<longrightarrow>
        PreviewAction (easyPreview v cfg) pr =
          Some \<lparr> label = ''Preview'',
                 disabled = (\<not> truthy (draft pr) \<and> \<not> truthy (published pr)) \<rparr>)"
  using typeConfigs_None_iff [of v cfg "p_type pr"]
  by (auto simp: PreviewAction_def)

text \<open>A configured type with a draft, and a type without configuration.\<close>

theorem PreviewAction_offered_witness:
  "''blogPost'' \<in> tc_type ` set (cfg_types example_config)
   \<and> PreviewAction (easyPreview None example_config) example_props
       = Some \<lparr> label = ''Preview'', disabled = False \<rparr>
   \<and> PreviewAction (easyPreview None example_config) (example_props\<lparr>p_type := ''author''\<rparr>) = None"
proof -
  have h: "''blogPost'' \<in> tc_type ` set (cfg_types example_config)"
    by (simp add: example_config_def)
  have n: "''author'' \<notin> tc_type ` set (cfg_types example_config)"
    by (simp add: example_config_def)
  from PreviewAction_offered [of None example_config example_props]
    PreviewAction_offered [of None example_config "example_props\<lparr>p_type := ''author''\<rparr>"]
    h n show ?thesis
    by (simp add: example_props_def)
qed

text \<open>
  C5 as stated fails: for the configured type \<open>blogPost\<close> with neither a draft nor a
  published document the action is not absent, it is rendered disabled.
\<close>

theorem PreviewAction_disabled_counterexample:
  "PreviewAction (easyPreview None example_config)
     \<lparr> p_id = ''doc1'', p_type = ''blogPost'', draft = JNull, published = JNull \<rparr>
   = Some \<lparr> label = ''Preview'', disabled = True \<rparr>"
  by (simp add: PreviewAction_def easyPreview_def Let_def typeConfigMap_def example_config_def)

section \<open>Properties of the preview URL\<close>

lemma set_first_named:
  "filter (\<lambda>p. fst p = n) (set_first n v ps) = (if n \<in> set (map fst ps) then [(n, v)] else [])"
proof (induction ps)
  case Nil
  show ?case by simp
next
  case (Cons p ps)
  obtain k x where p: "p = (k, x)" by (cases p)
  have "filter (\<lambda>q. fst q = n) (filter (\<lambda>q. fst q \<noteq> n) ps) = []"
    by (simp add: filter_empty_conv)
  with Cons.IH show ?case
    by (simp add: p)
qed

lemma set_first_others:
  assumes "\<And>p. Q p \<Longrightarrow> fst p \<noteq> n"
  shows "filter Q (set_first n v ps) = filter Q ps"
proof (induction ps)
  case Nil
  show ?case by simp
next
  case (Cons p ps)
  obtain k x where p: "p = (k, x)" by (cases p)
  have "\<And>q. (fst q \<noteq> n \<and> Q q) = Q q"
    using assms by blast
  then have drop: "filter Q (filter (\<lambda>q. fst q \<noteq> n) ps) = filter Q ps"
    by simp
  have head: "k = n \<Longrightarrow> \<not> Q (k, v) \<and> \<not> Q (k, x)"
    using assms by fastforce
  show ?case
    using Cons.IH drop head by (simp add: p)
qed

lemma searchParams_set_named:
  "params_named n (searchParams_set n v u) = [(n, v)]"
proof (cases "n \<in> set (map fst (searchParams u))")
  case True
  then show ?thesis
    by (simp add: params_named_def searchParams_set_def set_first_named)
next
  case False
  then have "filter (\<lambda>p. fst p = n) (searchParams u) = []"
    by (auto simp: filter_empty_conv)
  with False show ?thesis
    by (simp add: params_named_def searchParams_set_def)
qed

lemma searchParams_set_others:
  assumes "\<And>p. Q p \<Longrightarrow> fst p \<noteq> n"
  shows "filter Q (searchParams (searchParams_set n v u)) = filter Q (searchParams u)"
proof (cases "n \<in> set (map fst (searchParams u))")
  case True
  then show ?thesis
    using set_first_others [of Q n v "searchParams u"] assms
    by (simp add: searchParams_set_def)
next
  case False
  have "\<not> Q (n, v)" using assms by fastforce
  with False show ?thesis
    by (simp add: searchParams_set_def)
qed

lemma searchParams_set_other_named:
  "m \<noteq> n \<Longrightarrow> params_named m (searchParams_set n v u) = params_named m u"
  unfolding params_named_def by (rule searchParams_set_others) simp



lemma length_by_two_names:
  "a \<noteq> b \<Longrightarrow>
   length ps = length (filter (\<lambda>p. fst p = a) ps) + length (filter (\<lambda>p. fst p = b) ps)
     + length (filter (\<lambda>p. fst p \<noteq> a \<and> fst p \<noteq> b) ps)"
  by (induction ps) auto

lemma searchParams_set_fields:
  "endpoint (searchParams_set n v u) = endpoint u \<and> hash (searchParams_set n v u) = hash u"
  by (simp add: searchParams_set_def)

lemma built_params:
  assumes "url_parse E route base = Inr u0"
  shows "\<exists>u. buildPreviewUrl E route base s urlPrefix slug = Inr u
     \<and> endpoint u = endpoint u0 \<and> hash u = hash u0
     \<and> params_named ''sanity-preview-secret'' u = [(''sanity-preview-secret'', s)]
     \<and> params_named ''sanity-preview-pathname'' u
         = [(''sanity-preview-pathname'', previewPathname urlPrefix slug)]
     \<and> filter (\<lambda>p. fst p \<noteq> ''sanity-preview-secret'' \<and> fst p \<noteq> ''sanity-preview-pathname'')
         (searchParams u)
       = filter (\<lambda>p. fst p \<noteq> ''sanity-preview-secret'' \<and> fst p \<noteq> ''sanity-preview-pathname'')
         (searchParams u0)"
proof -
  let ?u1 = "searchParams_set ''sanity-preview-secret'' s u0"
  let ?u = "searchParams_set ''sanity-preview-pathname'' (previewPathname urlPrefix slug) ?u1"
  let ?Q = "\<lambda>p::string \<times> string. fst p \<noteq> ''sanity-preview-secret'' \<and> fst p \<noteq> ''sanity-preview-pathname''"
  have b: "buildPreviewUrl E route base s urlPrefix slug = Inr ?u"
    using assms by (simp add: buildPreviewUrl_def)
  have f: "endpoint ?u = endpoint u0 \<and> hash ?u = hash u0"
    by (simp add: searchParams_set_fields)
  have "params_named ''sanity-preview-secret'' ?u = params_named ''sanity-preview-secret'' ?u1"
    by (rule searchParams_set_other_named) simp
  then have s: "params_named ''sanity-preview-secret'' ?u = [(''sanity-preview-secret'', s)]"
    by (simp only: searchParams_set_named)
  have p: "params_named ''sanity-preview-pathname'' ?u
         = [(''sanity-preview-pathname'', previewPathname urlPrefix slug)]"
    by (rule searchParams_set_named)
  have "filter ?Q (searchParams ?u) = filter ?Q (searchParams ?u1)"
    by (rule searchParams_set_others) simp
  also have "\<dots> = filter ?Q (searchParams u0)"
    by (rule searchParams_set_others) simp
  finally have o: "filter ?Q (searchParams ?u) = filter ?Q (searchParams u0)" .
  from b f s p o show ?thesis by blast
qed

lemma urlencode_param_names:
  "urlencode ''sanity-preview-secret'' = ''sanity-preview-secret''
   \<and> urlencode ''sanity-preview-pathname'' = ''sanity-preview-pathname''"
  by (simp add: urlencode_def urlencode_byte_def urlencoded_plain_def)

lemma built_plain:
  assumes "url_parse E route base = Inr u0" and "searchParams u0 = []"
  shows "buildPreviewUrl E route base s urlPrefix slug =
           Inr (u0\<lparr>searchParams := [(''sanity-preview-secret'', s),
                   (''sanity-preview-pathname'', previewPathname urlPrefix slug)]\<rparr>)
         \<and> map_sum id url_toString (buildPreviewUrl E route base s urlPrefix slug) =
           Inr (endpoint u0 @ ''?sanity-preview-secret='' @ urlencode s
                  @ ''&sanity-preview-pathname='' @ urlencode (previewPathname urlPrefix slug)
                  @ hash u0)"
  using assms
  by (simp add: buildPreviewUrl_def searchParams_set_def url_toString_def urlencoded_serialize_def
        urlencode_param_names)





text \<open>
  C1, as the code has it. Whenever the URL constructor accepts the route and the base,
  the built URL is the resolved route (same endpoint, same fragment) in which
  \<open>sanity-preview-secret\<close> and \<open>sanity-preview-pathname\<close> each occur exactly once,
  carrying the secret and the pathname, where the pathname is prefix, \<open>/\<close>, slug for a
  non-empty prefix and \<open>/\<close>, slug otherwise; the query parameters the route brings
  under other names are kept, so that the URL has two parameters more than the route
  brings under other names, and exactly two when it brings none. When the resolved route
  has no query of its own, these two are the only parameters, in this order, and the URL
  text is the endpoint followed by
  \<open>?sanity-preview-secret=\<close>, the encoded secret, \<open>&sanity-preview-pathname=\<close>, the
  encoded pathname and the fragment. For the endpoint \<open>http://localhost:3000/api/draft\<close>,
  the secret \<open>abc123\<close> and the pathname \<open>/blog/hello\<close> this is exactly
  \<open>http://localhost:3000/api/draft?sanity-preview-secret=abc123&sanity-preview-pathname=%2Fblog%2Fhello\<close>.
\<close>

theorem preview_url_built:
  assumes "url_parse E route base = Inr u0"
  shows "\<exists>u. buildPreviewUrl E route base s urlPrefix slug = Inr u
     \<and> endpoint u = endpoint u0 \<and> hash u = hash u0
     \<and> params_named ''sanity-preview-secret'' u = [(''sanity-preview-secret'', s)]
     \<and> params_named ''sanity-preview-pathname'' u
         = [(''sanity-preview-pathname'',
             if urlPrefix \<noteq> [] then urlPrefix @ ''/'' @ slug else ''/'' @ slug)]
     \<and> filter (\<lambda>p. fst p \<noteq> ''sanity-preview-secret'' \<and> fst p \<noteq> ''sanity-preview-pathname'')
         (searchParams u)
       = filter (\<lambda>p. fst p \<noteq> ''sanity-preview-secret'' \<and> fst p \<noteq> ''sanity-preview-pathname'')
         (searchParams u0)
     \<and> length (searchParams u)
         = 2 + length (filter (\<lambda>p. fst p \<noteq> ''sanity-preview-secret''
                                    \<and> fst p \<noteq> ''sanity-preview-pathname'') (searchParams u0))
     \<and> (length (searchParams u) = 2 \<longleftrightarrow>
          filter (\<lambda>p. fst p \<noteq> ''sanity-preview-secret'' \<and> fst p \<noteq> ''sanity-preview-pathname'')
            (searchParams u0) = [])
     \<and> (searchParams u0 = [] \<longrightarrow>
          searchParams u =
            [(''sanity-preview-secret'', s),
             (''sanity-preview-pathname'',
              if urlPrefix \<noteq> [] then urlPrefix @ ''/'' @ slug else ''/'' @ slug)]
          \<and> url_toString u =
              endpoint u0 @ ''?sanity-preview-secret='' @ urlencode s
                @ ''&sanity-preview-pathname=''
                @ urlencode (if urlPrefix \<noteq> [] then urlPrefix @ ''/'' @ slug else ''/'' @ slug)
                @ hash u0)
     \<and> (u0 = \<lparr> endpoint = ''http://localhost:3000/api/draft'', searchParams = [], hash = [] \<rparr>
          \<and> s = ''abc123'' \<and> urlPrefix = ''/blog'' \<and> slug = ''hello'' \<longrightarrow>
          url_toString u =
            ''http://localhost:3000/api/draft?sanity-preview-secret=abc123&sanity-preview-pathname=%2Fblog%2Fhello'')"
proof -
  obtain u where b: "buildPreviewUrl E route base s urlPrefix slug = Inr u"
    and f: "endpoint u = endpoint u0" "hash u = hash u0"
    and ps: "params_named ''sanity-preview-secret'' u = [(''sanity-preview-secret'', s)]"
    and pp: "params_named ''sanity-preview-pathname'' u
         = [(''sanity-preview-pathname'', previewPathname urlPrefix slug)]"
    and o: "filter (\<lambda>p. fst p \<noteq> ''sanity-preview-secret'' \<and> fst p \<noteq> ''sanity-preview-pathname'')
         (searchParams u)
       = filter (\<lambda>p. fst p \<noteq> ''sanity-preview-secret'' \<and> fst p \<noteq> ''sanity-preview-pathname'')
         (searchParams u0)"
    using built_params [OF assms, of s urlPrefix slug] by blast
  have "length (searchParams u)
      = length (params_named ''sanity-preview-secret'' u)
        + length (params_named ''sanity-preview-pathname'' u)
        + length (filter (\<lambda>p. fst p \<noteq> ''sanity-preview-secret''
                                \<and> fst p \<noteq> ''sanity-preview-pathname'') (searchParams u))"
    unfolding params_named_def by (rule length_by_two_names) simp
  then have len: "length (searchParams u)
         = 2 + length (filter (\<lambda>p. fst p \<noteq> ''sanity-preview-secret''
                                    \<and> fst p \<noteq> ''sanity-preview-pathname'') (searchParams u0))"
    by (simp add: ps pp o)
  then have only: "length (searchParams u) = 2 \<longleftrightarrow>
          filter (\<lambda>p. fst p \<noteq> ''sanity-preview-secret'' \<and> fst p \<noteq> ''sanity-preview-pathname'')
            (searchParams u0) = []"
    by simp
  have plain: "searchParams u =
            [(''sanity-preview-secret'', s),
             (''sanity-preview-pathname'', previewPathname urlPrefix slug)]
          \<and> url_toString u =
              endpoint u0 @ ''?sanity-preview-secret='' @ urlencode s
                @ ''&sanity-preview-pathname='' @ urlencode (previewPathname urlPrefix slug)
                @ hash u0" if e: "searchParams u0 = []"
    using built_plain [OF assms e, of s urlPrefix slug] b by auto
  have enc: "urlencode ''abc123'' = ''abc123'' \<and> urlencode ''/blog/hello'' = ''%2Fblog%2Fhello''"
    by (simp add: urlencode_def urlencode_byte_def urlencoded_plain_def hex_upper_def)
  have ex: "url_toString u =
            ''http://localhost:3000/api/draft?sanity-preview-secret=abc123&sanity-preview-pathname=%2Fblog%2Fhello''"
    if "u0 = \<lparr> endpoint = ''http://localhost:3000/api/draft'', searchParams = [], hash = [] \<rparr>"
      and "s = ''abc123''" and "urlPrefix = ''/blog''" and "slug = ''hello''"
  proof -
    have "searchParams u0 = []" using that(1) by simp
    from plain [OF this] have "url_toString u =
              endpoint u0 @ ''?sanity-preview-secret='' @ urlencode s
                @ ''&sanity-preview-pathname='' @ urlencode (previewPathname urlPrefix slug)
                @ hash u0" by (rule conjunct2)
    moreover have "previewPathname urlPrefix slug = ''/blog/hello''"
      using that by (simp add: previewPathname_def)
    ultimately show ?thesis
      using that enc by simp
  qed
  from b f ps pp o len only plain ex show ?thesis
    unfolding previewPathname_def by blast
qed

text \<open>The URL of the worked example.\<close>

theorem preview_url_built_witness:
  "url_parse example_env ''/api/draft'' (Some ''http://localhost:3000'')
     = Inr \<lparr> endpoint = ''http://localhost:3000/api/draft'', searchParams = [], hash = [] \<rparr>
   \<and> map_sum id url_toString
       (buildPreviewUrl example_env ''/api/draft'' (Some ''http://localhost:3000'') ''abc123''
          ''/blog'' ''hello'')
     = Inr ''http://localhost:3000/api/draft?sanity-preview-secret=abc123&sanity-preview-pathname=%2Fblog%2Fhello''"
proof -
  have h: "url_parse example_env ''/api/draft'' (Some ''http://localhost:3000'')
     = Inr \<lparr> endpoint = ''http://localhost:3000/api/draft'', searchParams = [], hash = [] \<rparr>"
    by (simp add: example_env_def example_url_parse_def)
  from preview_url_built [OF h, of "''abc123''" "''/blog''" "''hello''"]
  obtain u where "buildPreviewUrl example_env ''/api/draft'' (Some ''http://localhost:3000'') ''abc123''
          ''/blog'' ''hello'' = Inr u"
    and "url_toString u =
            ''http://localhost:3000/api/draft?sanity-preview-secret=abc123&sanity-preview-pathname=%2Fblog%2Fhello''"
    by blast
  with h show ?thesis by simp
qed

text \<open>
  C1 as stated fails: for the route \<open>/api/draft?x=1\<close> the built URL has three query
  parameters, the route's own and the two of the plugin.
\<close>

theorem preview_url_extra_param_counterexample:
  "buildPreviewUrl example_env ''/api/draft?x=1'' (Some ''http://localhost:3000'') ''abc123''
     ''/blog'' ''hello''
   = Inr \<lparr> endpoint = ''http://localhost:3000/api/draft'',
           searchParams = [(''x'', ''1''), (''sanity-preview-secret'', ''abc123''),
                           (''sanity-preview-pathname'', ''/blog/hello'')],
           hash = [] \<rparr>
   \<and> url_toString
       \<lparr> endpoint = ''http://localhost:3000/api/draft'',
         searchParams = [(''x'', ''1''), (''sanity-preview-secret'', ''abc123''),
                         (''sanity-preview-pathname'', ''/blog/hello'')],
         hash = [] \<rparr>
     = ''http://localhost:3000/api/draft?x=1&sanity-preview-secret=abc123&sanity-preview-pathname=%2Fblog%2Fhello''"
  by (simp add: buildPreviewUrl_def example_env_def example_url_parse_def searchParams_set_def
        previewPathname_def url_toString_def urlencoded_serialize_def urlencode_def
        urlencode_byte_def urlencoded_plain_def hex_upper_def)

section \<open>Properties of the cleanup sweep\<close>

lemma issued_cleanup: "issued (cleanupExpiredSecrets E ds) = [Delete cleanup_query]"
  by (simp add: cleanupExpiredSecrets_def split: sum.splits)

lemma cleanup_query_parses: "groq_parse cleanup_query = Some cleanup_filter"
  by code_simp

lemma cleanup_filter_selects:
  "groq_selects now cleanup_filter d
     = Some (sd_type d = ''sanity.previewUrlSecret'' \<and> sd_updatedAt d \<le> now - 3600)"
  by (simp add: groq_selects_def cleanup_filter_def groq_binary_def level_ops_def groq_order_def)

lemma client_delete_cleanup:
  "client_delete E cleanup_query ds =
     (case delete_fails E of
        Some e \<Rightarrow> Inl e
      | None \<Rightarrow>
          Inr (filter (\<lambda>d. \<not> (sd_type d = ''sanity.previewUrlSecret''
                               \<and> sd_updatedAt d \<le> clock E - 3600)) ds))"
  by (simp add: client_delete_def cleanup_query_parses cleanup_filter_selects list_all_iff
        split: option.splits)

lemma settled_cleanup:
  "settled (cleanupExpiredSecrets E ds) = (case delete_fails E of None \<Rightarrow> [] | Some e \<Rightarrow> [ConsoleWarn e])"
  by (simp add: cleanupExpiredSecrets_def client_delete_cleanup split: option.splits)

lemma rejection_cleanup: "rejection (cleanupExpiredSecrets E ds) = None"
  by (simp add: cleanupExpiredSecrets_def split: sum.splits)

lemma dataset_after_cleanup:
  "dataset_after (cleanupExpiredSecrets E ds) =
     (case delete_fails E of
        None \<Rightarrow> filter (\<lambda>d. \<not> (sd_type d = ''sanity.previewUrlSecret''
                               \<and> sd_updatedAt d \<le> clock E - 3600)) ds
      | Some e \<Rightarrow> ds)"
  by (simp add: cleanupExpiredSecrets_def client_delete_cleanup split: option.splits)

text \<open>
  C4. The query the cleanup sends, read by the dataset, selects exactly the documents
  whose type is the secret-record type and whose last update lies at least 3600 seconds
  before the time of the sweep. A sweep that does not fail deletes exactly these and
  keeps every other document in place: a secret updated 3601 or exactly 3600 seconds ago
  is deleted, one updated 3599 seconds ago is kept, and so is every document of another
  type.
\<close>

theorem cleanup_deletes_expired:
  assumes "delete_fails E = None"
  shows "groq_parse cleanup_query = Some cleanup_filter
       \<and> groq_selects (clock E) cleanup_filter d
           = Some (sd_type d = ''sanity.previewUrlSecret'' \<and> 3600 \<le> clock E - sd_updatedAt d)
       \<and> client_delete E cleanup_query ds =
           Inr (filter (\<lambda>d. \<not> (sd_type d = ''sanity.previewUrlSecret''
                                \<and> 3600 \<le> clock E - sd_updatedAt d)) ds)
       \<and> dataset_after (cleanupExpiredSecrets E ds) =
           filter (\<lambda>d. \<not> (sd_type d = ''sanity.previewUrlSecret'' \<and> 3600 \<le> clock E - sd_updatedAt d)) ds
       \<and> (d \<in> set ds \<and> sd_type d = ''sanity.previewUrlSecret'' \<and> clock E - sd_updatedAt d = 3601
            \<longrightarrow> d \<notin> set (dataset_after (cleanupExpiredSecrets E ds)))
       \<and> (d \<in> set ds \<and> sd_type d = ''sanity.previewUrlSecret'' \<and> clock E - sd_updatedAt d = 3600
            \<longrightarrow> d \<notin> set (dataset_after (cleanupExpiredSecrets E ds)))
       \<and> (d \<in> set ds \<and> clock E - sd_updatedAt d = 3599
            \<longrightarrow> d \<in> set (dataset_after (cleanupExpiredSecrets E ds)))
       \<and> (d \<in> set ds \<and> sd_type d \<noteq> ''sanity.previewUrlSecret''
            \<longrightarrow> d \<in> set (dataset_after (cleanupExpiredSecrets E ds)))"
proof -
  have m: "(sd_updatedAt x \<le> clock E - 3600) = (3600 \<le> clock E - sd_updatedAt x)"
    for x :: stored_doc
    by auto
  have sel: "groq_selects (clock E) cleanup_filter d
           = Some (sd_type d = ''sanity.previewUrlSecret'' \<and> 3600 \<le> clock E - sd_updatedAt d)"
    by (simp add: cleanup_filter_selects m)
  have del: "client_delete E cleanup_query ds =
           Inr (filter (\<lambda>d. \<not> (sd_type d = ''sanity.previewUrlSecret''
                                \<and> 3600 \<le> clock E - sd_updatedAt d)) ds)"
    using assms by (simp add: client_delete_cleanup m)
  have a: "dataset_after (cleanupExpiredSecrets E ds) =
           filter (\<lambda>d. \<not> (sd_type d = ''sanity.previewUrlSecret'' \<and> 3600 \<le> clock E - sd_updatedAt d)) ds"
    using assms by (simp add: dataset_after_cleanup m)
  show ?thesis
    unfolding a using cleanup_query_parses sel del by simp
qed

text \<open>
  A sweep over secrets that are 3601, 3600 and 3599 seconds old and a page that is 25
  hours old.
\<close>

theorem cleanup_deletes_expired_witness:
  "delete_fails example_env = None
   \<and> client_delete example_env cleanup_query example_dataset =
       Inr [\<lparr> sd_id = ''drafts.c'', sd_type = ''sanity.previewUrlSecret'',
              sd_updatedAt = 100000 - 3599, sd_attrs = [] \<rparr>,
            \<lparr> sd_id = ''page1'', sd_type = ''page'', sd_updatedAt = 100000 - 90000,
              sd_attrs = [] \<rparr>]
   \<and> dataset_after (cleanupExpiredSecrets example_env example_dataset) =
       [\<lparr> sd_id = ''drafts.c'', sd_type = ''sanity.previewUrlSecret'', sd_updatedAt = 100000 - 3599,
          sd_attrs = [] \<rparr>,
        \<lparr> sd_id = ''page1'', sd_type = ''page'', sd_updatedAt = 100000 - 90000, sd_attrs = [] \<rparr>]"
proof -
  have h: "delete_fails example_env = None"
    by (simp add: example_env_def)
  have c: "clock example_env = 100000"
    by (simp add: example_env_def)
  show ?thesis
    using cleanup_deletes_expired [OF h, of _ example_dataset] h
    by (simp add: c example_dataset_def)
qed

section \<open>Properties of the handler\<close>

lemma handlePreview_trace:
  "trace (handlePreview P E pr ds) =
     (case thrown (handlePreview_try P E pr ds) of
        None \<Rightarrow> trace (handlePreview_try P E pr ds)
      | Some error \<Rightarrow>
          trace (handlePreview_try P E pr ds)
            @ [ConsoleError error, ToastPush StatusError ''Preview failed'' (exn_message error)])"
  by (simp add: handlePreview_def Let_def split: option.splits)

lemma handlePreview_fields:
  "background (handlePreview P E pr ds) = background (handlePreview_try P E pr ds)
   \<and> dataset (handlePreview P E pr ds) = dataset (handlePreview_try P E pr ds)
   \<and> thrown (handlePreview P E pr ds) = None"
  by (simp add: handlePreview_def Let_def split: option.splits)

lemma example_run:
  "trace (handlePreview example_plugin example_env example_props []) = example_trace"
  by (simp add: handlePreview_def handlePreview_try_def issue_secret_def open_preview_def
        issued_cleanup example_plugin_def easyPreview_def typeConfigMap_def example_config_def
        example_env_def example_props_def or_else_def getSlugValue_def resolve_urlPrefix_def
        buildPreviewUrl_def example_url_parse_def searchParams_set_def previewPathname_def
        url_toString_def urlencoded_serialize_def urlencode_def urlencode_byte_def
        urlencoded_plain_def hex_upper_def finished_def threw_def Let_def example_trace_def
        example_secretDoc_def example_href_def example_fill_secret
      del: generateUrlSecret.simps)

lemma product_run:
  "trace (handlePreview product_plugin example_env product_props []) = product_trace"
  by (simp add: handlePreview_def handlePreview_try_def issue_secret_def open_preview_def
        issued_cleanup product_plugin_def easyPreview_def typeConfigMap_def product_config_def
        example_env_def product_props_def or_else_def getSlugValue_def resolve_urlPrefix_def
        category_prefix_def
        buildPreviewUrl_def example_url_parse_def searchParams_set_def previewPathname_def
        url_toString_def urlencoded_serialize_def urlencode_def urlencode_byte_def
        urlencoded_plain_def hex_upper_def finished_def threw_def Let_def product_trace_def
        product_secretDoc_def product_href_def example_fill_secret
      del: generateUrlSecret.simps)

lemma product_run_throws:
  "fst (preview_request product_plugin
          (example_env\<lparr>delete_fails := Some (Error ''timeout''), delete_throws_in_turn := True\<rparr>)
          product_props [])
   = [CallGetSlugValue ''meta.slug'', CallGenerateUrlSecret,
      Commit product_secretDoc ''sanity.preview-url-secret'',
      Delete cleanup_query,
      ConsoleWarn (Error ''timeout''),
      CallUrlPrefix,
      NewURL ''/api/draft'' (Some ''http://localhost:3000''),
      WindowOpen product_href ''_blank'',
      ToastPush StatusSuccess ''Preview opened'' ''Opening preview in new tab...'']"
  by (simp add: handlePreview_def handlePreview_try_def issue_secret_def open_preview_def
        issued_cleanup settled_cleanup dataset_after_cleanup preview_request_def
        easyPreview_def typeConfigMap_def
        example_env_def or_else_def getSlugValue_def resolve_urlPrefix_def
        buildPreviewUrl_def example_url_parse_def searchParams_set_def previewPathname_def
        url_toString_def urlencoded_serialize_def urlencode_def urlencode_byte_def
        urlencoded_plain_def hex_upper_def finished_def threw_def Let_def
        example_fill_secret index_where_def
        product_plugin_def product_config_def product_props_def category_prefix_def
        product_secretDoc_def product_href_def
      del: generateUrlSecret.simps)

lemma example_run_delete_fails:
  "preview_request example_plugin (example_env\<lparr>delete_fails := Some (Error ''timeout'')\<rparr>)
     example_props []
   = (example_trace @ [ConsoleWarn (Error ''timeout'')],
      createOrReplace 100000 example_secretDoc [])"
  by (simp add: handlePreview_def handlePreview_try_def issue_secret_def open_preview_def
        issued_cleanup settled_cleanup dataset_after_cleanup preview_request_def
        easyPreview_def typeConfigMap_def
        example_env_def or_else_def getSlugValue_def resolve_urlPrefix_def
        buildPreviewUrl_def example_url_parse_def searchParams_set_def previewPathname_def
        url_toString_def urlencoded_serialize_def urlencode_def urlencode_byte_def
        urlencoded_plain_def hex_upper_def finished_def threw_def Let_def
        example_fill_secret index_where_def
        example_plugin_def example_config_def example_props_def example_trace_def
        example_secretDoc_def example_href_def
      del: generateUrlSecret.simps)

lemma example_run_commit_fails:
  "trace (handlePreview example_plugin (example_env\<lparr>commit_fails := Some (Error ''write failed'')\<rparr>)
     example_props [])
   = [CallGetSlugValue ''slug.current'', CallGenerateUrlSecret,
      Commit example_secretDoc ''sanity.preview-url-secret'',
      ConsoleError (Error ''write failed''),
      ToastPush StatusError ''Preview failed'' ''write failed'']"
  by (simp add: handlePreview_def handlePreview_try_def issue_secret_def
        example_plugin_def easyPreview_def typeConfigMap_def example_config_def
        example_env_def example_props_def or_else_def getSlugValue_def
        finished_def threw_def Let_def
        example_secretDoc_def example_fill_secret
      del: generateUrlSecret.simps)

text \<open>
  C9. For a document type without an entry in \<open>types\<close> the handler reports
  \<open>Preview not configured\<close> and returns: nothing is committed, the slug resolver is not
  called, no cleanup is started, and the dataset is as it was, also after the whole
  request.
\<close>

theorem unconfigured_type_no_effects:
  assumes "p_type pr \<notin> tc_type ` set (cfg_types cfg)"
  shows "handlePreview (easyPreview v cfg) E pr ds =
           finished
             [ToastPush StatusError ''Preview not configured''
                (''No preview configuration found for document type '' @ [CHR 0x22] @ p_type pr
                   @ [CHR 0x22])]
             ds None
         \<and> preview_request (easyPreview v cfg) E pr ds =
             ([ToastPush StatusError ''Preview not configured''
                (''No preview configuration found for document type '' @ [CHR 0x22] @ p_type pr
                   @ [CHR 0x22])], ds)
         \<and> (\<forall>d tag. Commit d tag \<notin> set (trace (handlePreview (easyPreview v cfg) E pr ds)))
         \<and> (\<forall>f. CallGetSlugValue f \<notin> set (trace (handlePreview (easyPreview v cfg) E pr ds)))"
proof -
  have none: "typeConfigs (easyPreview v cfg) (p_type pr) = None"
    using assms by (simp add: typeConfigs_None_iff)
  then have run: "handlePreview (easyPreview v cfg) E pr ds =
           finished
             [ToastPush StatusError ''Preview not configured''
                (''No preview configuration found for document type '' @ [CHR 0x22] @ p_type pr
                   @ [CHR 0x22])]
             ds None"
    by (simp add: handlePreview_def handlePreview_try_def finished_def)
  then show ?thesis
    by (simp add: preview_request_def finished_def)
qed

text \<open>A request for the type \<open>author\<close>, which the worked configuration does not list.\<close>

theorem unconfigured_type_no_effects_witness:
  "''author'' \<notin> tc_type ` set (cfg_types example_config)
   \<and> preview_request (easyPreview None example_config) example_env
       (example_props\<lparr>p_type := ''author''\<rparr>) example_dataset
     = ([ToastPush StatusError ''Preview not configured''
           (''No preview configuration found for document type '' @ [CHR 0x22] @ ''author''
              @ [CHR 0x22])], example_dataset)"
proof -
  have n: "''author'' \<notin> tc_type ` set (cfg_types example_config)"
    by (simp add: example_config_def)
  have "p_type (example_props\<lparr>p_type := ''author''\<rparr>) \<notin> tc_type ` set (cfg_types example_config)"
    using n by simp
  from unconfigured_type_no_effects [OF this, of None example_env example_dataset] n
  show ?thesis by simp
qed

lemma try_commit_fails:
  assumes "commit_fails E = Some e"
  shows "background (handlePreview_try P E pr ds) = None
       \<and> dataset (handlePreview_try P E pr ds) = ds
       \<and> (\<forall>r b. NewURL r b \<notin> set (trace (handlePreview_try P E pr ds)))
       \<and> (\<forall>q. Delete q \<notin> set (trace (handlePreview_try P E pr ds)))
       \<and> (\<forall>u t. WindowOpen u t \<notin> set (trace (handlePreview_try P E pr ds)))
       \<and> (\<forall>x. ConsoleError x \<notin> set (trace (handlePreview_try P E pr ds)))
       \<and> (thrown (handlePreview_try P E pr ds) = None \<or> thrown (handlePreview_try P E pr ds) = Some e)
       \<and> ((\<exists>d tag. Commit d tag \<in> set (trace (handlePreview_try P E pr ds)))
            = (thrown (handlePreview_try P E pr ds) = Some e))"
  using assms
  by (auto simp: handlePreview_try_def issue_secret_def finished_def threw_def Let_def
           split: option.splits)

text \<open>
  C3. When the commit of the secret document is attempted and rejected, no URL is
  constructed, no cleanup is dispatched (neither a delete request nor a pending cleanup),
  no URL is opened, the dataset is unchanged, and the handler does not throw: it logs the
  error and ends with the error toast \<open>Preview failed\<close> carrying the error's message.
\<close>

theorem persist_failure_aborts:
  assumes "commit_fails E = Some e"
    and "Commit d tag \<in> set (trace (handlePreview P E pr ds))"
  shows "(\<forall>r b. NewURL r b \<notin> set (trace (handlePreview P E pr ds)))
       \<and> (\<forall>q. Delete q \<notin> set (trace (handlePreview P E pr ds)))
       \<and> background (handlePreview P E pr ds) = None
       \<and> (\<forall>u t. WindowOpen u t \<notin> set (trace (handlePreview P E pr ds)))
       \<and> (\<exists>tr. trace (handlePreview P E pr ds) =
                 tr @ [ConsoleError e, ToastPush StatusError ''Preview failed'' (exn_message e)])
       \<and> thrown (handlePreview P E pr ds) = None
       \<and> dataset (handlePreview P E pr ds) = ds
       \<and> preview_request P E pr ds = (trace (handlePreview P E pr ds), ds)"
proof -
  let ?t = "handlePreview_try P E pr ds"
  note f = try_commit_fails [OF assms(1), of P pr ds]
  have "Commit d tag \<in> set (trace ?t)"
    using assms(2) by (auto simp: handlePreview_trace split: option.splits)
  with f have th: "thrown ?t = Some e" by blast
  then have tr: "trace (handlePreview P E pr ds) =
      trace ?t @ [ConsoleError e, ToastPush StatusError ''Preview failed'' (exn_message e)]"
    by (simp add: handlePreview_trace)
  have bg: "background (handlePreview P E pr ds) = None"
    using f by (simp add: handlePreview_fields)
  have dsu: "dataset (handlePreview P E pr ds) = ds"
    using f by (simp add: handlePreview_fields)
  have req: "preview_request P E pr ds = (trace (handlePreview P E pr ds), ds)"
    using bg dsu by (simp add: preview_request_def Let_def)
  from f tr bg dsu req show ?thesis
    by (simp add: handlePreview_fields)
qed

text \<open>The worked request with a commit rejected by \<open>write failed\<close>.\<close>

theorem persist_failure_aborts_witness:
  "commit_fails (example_env\<lparr>commit_fails := Some (Error ''write failed'')\<rparr>)
     = Some (Error ''write failed'')
   \<and> Commit example_secretDoc ''sanity.preview-url-secret''
       \<in> set (trace (handlePreview example_plugin
                        (example_env\<lparr>commit_fails := Some (Error ''write failed'')\<rparr>)
                        example_props []))
   \<and> background (handlePreview example_plugin
                    (example_env\<lparr>commit_fails := Some (Error ''write failed'')\<rparr>)
                    example_props []) = None
   \<and> preview_request example_plugin (example_env\<lparr>commit_fails := Some (Error ''write failed'')\<rparr>)
       example_props []
     = ([CallGetSlugValue ''slug.current'', CallGenerateUrlSecret,
         Commit example_secretDoc ''sanity.preview-url-secret'',
         ConsoleError (Error ''write failed''),
         ToastPush StatusError ''Preview failed'' ''write failed''], [])"
proof -
  let ?E = "example_env\<lparr>commit_fails := Some (Error ''write failed'')\<rparr>"
  have h1: "commit_fails ?E = Some (Error ''write failed'')"
    by simp
  have h2: "Commit example_secretDoc ''sanity.preview-url-secret''
       \<in> set (trace (handlePreview example_plugin ?E example_props []))"
    by (simp add: example_run_commit_fails)
  from persist_failure_aborts [OF h1 h2] h1 h2 show ?thesis
    by (simp add: example_run_commit_fails)
qed

lemma resolve_urlPrefix_events:
  "fst (resolve_urlPrefix typeConfig document) = []
   \<or> fst (resolve_urlPrefix typeConfig document) = [CallUrlPrefix]"
  by (simp add: resolve_urlPrefix_def split: option.splits url_prefix.splits)

lemma open_preview_window:
  assumes "WindowOpen href target \<in> set (trace (open_preview P E typeConfig document slug s tr ds))"
    and "\<forall>u t. WindowOpen u t \<notin> set tr"
  shows "\<exists>tp urlPrefix u.
      resolve_urlPrefix typeConfig document = (tp, Inr urlPrefix)
    \<and> buildPreviewUrl E (draftRoute P) (previewUrl P) s urlPrefix slug = Inr u
    \<and> href = url_toString u \<and> target = ''_blank''
    \<and> open_preview P E typeConfig document slug s tr ds =
        finished
          (tr @ [Delete cleanup_query] @ tp
             @ [NewURL (draftRoute P) (previewUrl P), WindowOpen href target,
                ToastPush StatusSuccess ''Preview opened'' ''Opening preview in new tab...''])
          ds (Some (cleanupExpiredSecrets E ds))"
proof -
  obtain tp res where r: "resolve_urlPrefix typeConfig document = (tp, res)"
    by (cases "resolve_urlPrefix typeConfig document")
  have tp: "\<forall>u t. WindowOpen u t \<notin> set tp"
    using resolve_urlPrefix_events [of typeConfig document] r by auto
  show ?thesis
  proof (cases res)
    case (Inl e)
    with assms r tp show ?thesis
      by (auto simp: open_preview_def Let_def issued_cleanup threw_def)
  next
    case (Inr urlPrefix)
    show ?thesis
    proof (cases "buildPreviewUrl E (draftRoute P) (previewUrl P) s urlPrefix slug")
      case (Inl e)
      with assms r tp Inr show ?thesis
        by (auto simp: open_preview_def Let_def issued_cleanup threw_def)
    next
      case built: (Inr u)
      show ?thesis
      proof (cases "window_origin E")
        case None
        with assms r tp Inr built show ?thesis
          by (auto simp: open_preview_def Let_def issued_cleanup threw_def)
      next
        case (Some origin)
        with assms r tp Inr built show ?thesis
          by (auto simp: open_preview_def Let_def issued_cleanup finished_def)
      qed
    qed
  qed
qed

lemma handlePreview_window_try:
  assumes "WindowOpen href target \<in> set (trace (handlePreview P E pr ds))"
  shows "WindowOpen href target \<in> set (trace (handlePreview_try P E pr ds))"
  using assms by (auto simp: handlePreview_trace split: option.splits)

lemma success_run:
  assumes "WindowOpen href target \<in> set (trace (handlePreview P E pr ds))"
  shows "\<exists>typeConfig slugField d tp urlPrefix slug u.
      typeConfigs P (p_type pr) = Some typeConfig
    \<and> tp = (case tc_urlPrefix typeConfig of Some (PrefixFunction f) \<Rightarrow> [CallUrlPrefix] | _ \<Rightarrow> [])
    \<and> handlePreview P E pr ds =
        finished
          ([CallGetSlugValue slugField, CallGenerateUrlSecret,
            Commit d ''sanity.preview-url-secret'', Delete cleanup_query] @ tp
             @ [NewURL (draftRoute P) (previewUrl P), WindowOpen href target,
                ToastPush StatusSuccess ''Preview opened'' ''Opening preview in new tab...''])
          (createOrReplace (clock E) d ds)
          (Some (cleanupExpiredSecrets E (createOrReplace (clock E) d ds)))
    \<and> (tp = [] \<or> tp = [CallUrlPrefix])
    \<and> buildPreviewUrl E (draftRoute P) (previewUrl P) (secret d) urlPrefix slug = Inr u
    \<and> href = url_toString u \<and> target = ''_blank''
    \<and> secret d = generateUrlSecret (random E)
    \<and> doc_id d = ''drafts.'' @ uuid E
    \<and> doc_type d = ''sanity.previewUrlSecret''
    \<and> source d = p_id pr
    \<and> commit_fails E = None"
proof -
  let ?t = "handlePreview_try P E pr ds"
  have w: "WindowOpen href target \<in> set (trace ?t)"
    using assms by (rule handlePreview_window_try)
  obtain typeConfig where tc: "typeConfigs P (p_type pr) = Some typeConfig"
    using w by (cases "typeConfigs P (p_type pr)") (auto simp: handlePreview_try_def finished_def)
  define document where "document = (if truthy (draft pr) then draft pr else published pr)"
  define slugField where
    "slugField = or_else (tc_slugField typeConfig) (or_else (cfg_slugField (config P)) ''slug.current'')"
  have doc: "truthy document"
    using w tc by (cases "truthy document")
      (auto simp: handlePreview_try_def finished_def document_def Let_def)
  obtain slug where slug: "getSlugValue document slugField = Some slug" "slug \<noteq> []"
    using w tc doc
    by (cases "getSlugValue document slugField")
      (auto simp: handlePreview_try_def finished_def document_def slugField_def Let_def
            split: if_splits)
  have t: "?t = issue_secret P E pr typeConfig document slug [CallGetSlugValue slugField] ds"
    using tc doc slug
    by (simp add: handlePreview_try_def document_def slugField_def Let_def)
  define d where
    "d = \<lparr> doc_id = ''drafts.'' @ uuid E, doc_type = ''sanity.previewUrlSecret'',
           secret = generateUrlSecret (random E), source = p_id pr,
           studioUrl = (case window_origin E of None \<Rightarrow> [] | Some origin \<Rightarrow> origin) \<rparr>"
  have cf: "commit_fails E = None"
    using w t by (cases "commit_fails E") (auto simp: issue_secret_def Let_def threw_def)
  let ?tr = "[CallGetSlugValue slugField, CallGenerateUrlSecret, Commit d ''sanity.preview-url-secret'']"
  have o: "?t = open_preview P E typeConfig document slug (secret d) ?tr
                  (createOrReplace (clock E) d ds)"
    using t cf by (simp add: issue_secret_def Let_def d_def)
  have "\<forall>u t. WindowOpen u t \<notin> set ?tr" by simp
  with w obtain tp urlPrefix u where
    r: "resolve_urlPrefix typeConfig document = (tp, Inr urlPrefix)" and
    b: "buildPreviewUrl E (draftRoute P) (previewUrl P) (secret d) urlPrefix slug = Inr u" and
    h: "href = url_toString u" "target = ''_blank''" and
    f: "?t = finished
          (?tr @ [Delete cleanup_query] @ tp
             @ [NewURL (draftRoute P) (previewUrl P), WindowOpen href target,
                ToastPush StatusSuccess ''Preview opened'' ''Opening preview in new tab...''])
          (createOrReplace (clock E) d ds)
          (Some (cleanupExpiredSecrets E (createOrReplace (clock E) d ds)))"
    unfolding o using open_preview_window by blast
  have tp: "tp = [] \<or> tp = [CallUrlPrefix]"
    using resolve_urlPrefix_events [of typeConfig document] r by simp
  have tpc: "tp = (case tc_urlPrefix typeConfig of Some (PrefixFunction f) \<Rightarrow> [CallUrlPrefix] | _ \<Rightarrow> [])"
    using r by (auto simp: resolve_urlPrefix_def split: option.splits url_prefix.splits)
  have hp: "handlePreview P E pr ds = ?t"
    using f by (simp add: handlePreview_def finished_def)
  have "handlePreview P E pr ds =
        finished
          ([CallGetSlugValue slugField, CallGenerateUrlSecret,
            Commit d ''sanity.preview-url-secret'', Delete cleanup_query] @ tp
             @ [NewURL (draftRoute P) (previewUrl P), WindowOpen href target,
                ToastPush StatusSuccess ''Preview opened'' ''Opening preview in new tab...''])
          (createOrReplace (clock E) d ds)
          (Some (cleanupExpiredSecrets E (createOrReplace (clock E) d ds)))"
    using hp f by simp
  moreover have "secret d = generateUrlSecret (random E)" "doc_id d = ''drafts.'' @ uuid E"
    "doc_type d = ''sanity.previewUrlSecret''" "source d = p_id pr"
    by (simp_all add: d_def)
  ultimately show ?thesis
    using tc tpc tp b h cf by blast
qed

lemma buildPreviewUrl_ignores_delete:
  "buildPreviewUrl (E\<lparr>delete_fails := x, delete_throws_in_turn := b\<rparr>) route base s urlPrefix slug
     = buildPreviewUrl E route base s urlPrefix slug"
  by (simp add: buildPreviewUrl_def)

lemma open_preview_ignores_delete:
  "same_main_flow (open_preview P (E\<lparr>delete_fails := x, delete_throws_in_turn := b\<rparr>) typeConfig document slug s tr ds)
     (open_preview P E typeConfig document slug s tr ds)"
proof -
  obtain tp res where r: "resolve_urlPrefix typeConfig document = (tp, res)"
    by (cases "resolve_urlPrefix typeConfig document")
  show ?thesis
  proof (cases res)
    case (Inl e)
    with r show ?thesis
      by (simp add: same_main_flow_def open_preview_def Let_def issued_cleanup threw_def)
  next
    case (Inr urlPrefix)
    show ?thesis
    proof (cases "buildPreviewUrl E (draftRoute P) (previewUrl P) s urlPrefix slug")
      case (Inl e)
      with r Inr show ?thesis
        by (simp add: same_main_flow_def open_preview_def Let_def issued_cleanup threw_def
              buildPreviewUrl_ignores_delete)
    next
      case built: (Inr u)
      with r Inr show ?thesis
        by (cases "window_origin E")
          (simp_all add: same_main_flow_def open_preview_def Let_def issued_cleanup threw_def
              finished_def buildPreviewUrl_ignores_delete)
    qed
  qed
qed

lemma issue_secret_ignores_delete:
  "same_main_flow (issue_secret P (E\<lparr>delete_fails := x, delete_throws_in_turn := b\<rparr>) pr typeConfig document slug tr ds)
     (issue_secret P E pr typeConfig document slug tr ds)"
proof (cases "commit_fails E")
  case None
  then show ?thesis
    using open_preview_ignores_delete
    by (simp add: issue_secret_def Let_def)
next
  case (Some e)
  then show ?thesis
    by (simp add: issue_secret_def Let_def same_main_flow_def threw_def)
qed

lemma handlePreview_try_ignores_delete:
  "same_main_flow (handlePreview_try P (E\<lparr>delete_fails := x, delete_throws_in_turn := b\<rparr>) pr ds) (handlePreview_try P E pr ds)"
proof (cases "typeConfigs P (p_type pr)")
  case None
  then show ?thesis
    by (simp add: handlePreview_try_def same_main_flow_def)
next
  case (Some typeConfig)
  define document where "document = (if truthy (draft pr) then draft pr else published pr)"
  define slugField where
    "slugField = or_else (tc_slugField typeConfig) (or_else (cfg_slugField (config P)) ''slug.current'')"
  show ?thesis
  proof (cases "truthy document")
    case False
    with Some show ?thesis
      by (simp add: handlePreview_try_def Let_def same_main_flow_def flip: document_def)
  next
    case doc: True
    show ?thesis
    proof (cases "getSlugValue document slugField")
      case None
      with Some doc show ?thesis
        by (simp add: handlePreview_try_def Let_def same_main_flow_def
              flip: document_def slugField_def)
    next
      case slug: (Some slug)
      show ?thesis
      proof (cases "slug = []")
        case True
        with Some doc slug show ?thesis
          by (simp add: handlePreview_try_def Let_def same_main_flow_def
                flip: document_def slugField_def)
      next
        case False
        with Some doc slug show ?thesis
          using issue_secret_ignores_delete
          by (simp add: handlePreview_try_def Let_def flip: document_def slugField_def)
      qed
    qed
  qed
qed

lemma handler_ignores_delete_outcome:
  "trace (handlePreview P (E\<lparr>delete_fails := x, delete_throws_in_turn := b\<rparr>) pr ds)
     = trace (handlePreview P E pr ds)
   \<and> dataset (handlePreview P (E\<lparr>delete_fails := x, delete_throws_in_turn := b\<rparr>) pr ds)
       = dataset (handlePreview P E pr ds)
   \<and> thrown (handlePreview P (E\<lparr>delete_fails := x, delete_throws_in_turn := b\<rparr>) pr ds)
       = thrown (handlePreview P E pr ds)
   \<and> (background (handlePreview P (E\<lparr>delete_fails := x, delete_throws_in_turn := b\<rparr>) pr ds) = None)
       = (background (handlePreview P E pr ds) = None)"
  using handlePreview_try_ignores_delete [where P = P and x = x and b = b and E = E and pr = pr and ds = ds]
  by (auto simp: same_main_flow_def handlePreview_trace handlePreview_fields split: option.splits)

lemma handler_ignores_delete:
  "trace (handlePreview P (E\<lparr>delete_fails := x\<rparr>) pr ds) = trace (handlePreview P E pr ds)
   \<and> dataset (handlePreview P (E\<lparr>delete_fails := x\<rparr>) pr ds) = dataset (handlePreview P E pr ds)
   \<and> thrown (handlePreview P (E\<lparr>delete_fails := x\<rparr>) pr ds) = thrown (handlePreview P E pr ds)
   \<and> (background (handlePreview P (E\<lparr>delete_fails := x\<rparr>) pr ds) = None)
       = (background (handlePreview P E pr ds) = None)"
proof -
  have "E\<lparr>delete_fails := x, delete_throws_in_turn := delete_throws_in_turn E\<rparr>
      = E\<lparr>delete_fails := x\<rparr>"
    by simp
  with handler_ignores_delete_outcome
    [where P = P and x = x and b = "delete_throws_in_turn E" and E = E and pr = pr and ds = ds]
  show ?thesis by simp
qed

lemma handler_ignores_delete_mode:
  "trace (handlePreview P (E\<lparr>delete_throws_in_turn := b\<rparr>) pr ds) = trace (handlePreview P E pr ds)"
proof -
  have "E\<lparr>delete_fails := delete_fails E, delete_throws_in_turn := b\<rparr>
      = E\<lparr>delete_throws_in_turn := b\<rparr>"
    by simp
  with handler_ignores_delete_outcome
    [where P = P and x = "delete_fails E" and b = b and E = E and pr = pr and ds = ds]
  show ?thesis by simp
qed

lemma background_is_cleanup:
  "background (handlePreview P E pr ds) = None
   \<or> (\<exists>ds'. background (handlePreview P E pr ds) = Some (cleanupExpiredSecrets E ds'))"
proof (cases "typeConfigs P (p_type pr)")
  case None
  then show ?thesis
    by (simp add: handlePreview_fields handlePreview_try_def finished_def)
next
  case (Some typeConfig)
  define document where "document = (if truthy (draft pr) then draft pr else published pr)"
  define slugField where
    "slugField = or_else (tc_slugField typeConfig) (or_else (cfg_slugField (config P)) ''slug.current'')"
  have op: "\<exists>ds'. background (open_preview P E typeConfig document slug s tr ds0)
      = Some (cleanupExpiredSecrets E ds')" for slug s tr ds0
    by (auto simp: open_preview_def Let_def threw_def finished_def
          split: prod.splits sum.splits option.splits)
  have iss: "background (issue_secret P E pr typeConfig document slug tr ds) = None
      \<or> (\<exists>ds'. background (issue_secret P E pr typeConfig document slug tr ds)
            = Some (cleanupExpiredSecrets E ds'))" for slug tr
    using op by (cases "commit_fails E") (simp_all add: issue_secret_def Let_def threw_def)
  show ?thesis
  proof (cases "truthy document")
    case False
    with Some show ?thesis
      by (simp add: handlePreview_fields handlePreview_try_def Let_def finished_def
            flip: document_def)
  next
    case doc: True
    show ?thesis
    proof (cases "getSlugValue document slugField")
      case None
      with Some doc show ?thesis
        by (simp add: handlePreview_fields handlePreview_try_def Let_def finished_def
              flip: document_def slugField_def)
    next
      case slug: (Some slug)
      show ?thesis
      proof (cases "slug = []")
        case True
        with Some doc slug show ?thesis
          by (simp add: handlePreview_fields handlePreview_try_def Let_def finished_def
                flip: document_def slugField_def)
      next
        case False
        with Some doc slug show ?thesis
          using iss
          by (simp add: handlePreview_fields handlePreview_try_def Let_def
                flip: document_def slugField_def)
      qed
    qed
  qed
qed

lemma preview_request_trace:
  "fst (preview_request P E pr ds) =
     (if background (handlePreview P E pr ds) = None then trace (handlePreview P E pr ds)
      else if delete_throws_in_turn E
      then take (Suc (index_where is_Delete (trace (handlePreview P E pr ds))))
             (trace (handlePreview P E pr ds))
           @ (case delete_fails E of None \<Rightarrow> [] | Some e \<Rightarrow> [ConsoleWarn e])
           @ drop (Suc (index_where is_Delete (trace (handlePreview P E pr ds))))
               (trace (handlePreview P E pr ds))
      else trace (handlePreview P E pr ds)
           @ (case delete_fails E of None \<Rightarrow> [] | Some e \<Rightarrow> [ConsoleWarn e]))"
  using background_is_cleanup [of P E pr ds]
  by (auto simp: preview_request_def Let_def settled_cleanup split: option.splits)

lemma filter_inserted:
  assumes "filter Q ws = []"
  shows "filter Q (take n xs @ ws @ drop n xs) = filter Q xs"
proof -
  have "filter Q (take n xs @ drop n xs) = filter Q xs"
    by simp
  then show ?thesis
    using assms by (simp only: filter_append append_Nil)
qed

lemma preview_request_filtered:
  assumes "\<And>e. \<not> Q (ConsoleWarn e)"
  shows "filter Q (fst (preview_request P E pr ds)) = filter Q (trace (handlePreview P E pr ds))"
proof -
  have w: "filter Q (case delete_fails E of None \<Rightarrow> [] | Some e \<Rightarrow> [ConsoleWarn e]) = []"
    using assms by (simp split: option.splits)
  show ?thesis
    using w filter_inserted [OF w] by (simp add: preview_request_trace)
qed

text \<open>
  C6, as the code has it. In every successful preview flow the delete request of the
  cleanup is issued after the commit of the secret and before the URL prefix is resolved
  and the URL is constructed and opened: up to and including the delete request the run
  holds no call of the prefix function, no URL construction and no opening, and a
  function-valued prefix is called right after the delete request and before the URL is
  constructed. The handler does not await the cleanup: its events depend neither on the
  outcome of the delete nor on how a failure arrives, and they are the events of the
  whole request apart from the warning the cleanup logs, which comes after all of them
  when the failure arrives through the promise and right after the delete request when
  \<open>client.delete\<close> throws in the caller's turn.
\<close>

theorem cleanup_dispatch_order:
  assumes "WindowOpen href target \<in> set (trace (handlePreview P E pr ds))"
  shows "index_where is_Commit (trace (handlePreview P E pr ds)) < index_where is_Delete (trace (handlePreview P E pr ds))
       \<and> index_where is_Delete (trace (handlePreview P E pr ds)) < index_where is_NewURL (trace (handlePreview P E pr ds))
       \<and> index_where is_NewURL (trace (handlePreview P E pr ds)) < index_where is_WindowOpen (trace (handlePreview P E pr ds))
       \<and> index_where is_Delete (trace (handlePreview P E pr ds)) < index_where is_CallUrlPrefix (trace (handlePreview P E pr ds))
       \<and> list_all (\<lambda>e. \<not> is_CallUrlPrefix e \<and> \<not> is_NewURL e \<and> \<not> is_WindowOpen e)
           (take (Suc (index_where is_Delete (trace (handlePreview P E pr ds)))) (trace (handlePreview P E pr ds)))
       \<and> (\<forall>tc f. typeConfigs P (p_type pr) = Some tc \<and> tc_urlPrefix tc = Some (PrefixFunction f)
            \<longrightarrow> index_where is_CallUrlPrefix (trace (handlePreview P E pr ds)) = Suc (index_where is_Delete (trace (handlePreview P E pr ds)))
              \<and> index_where is_CallUrlPrefix (trace (handlePreview P E pr ds)) < index_where is_NewURL (trace (handlePreview P E pr ds)))
       \<and> trace (handlePreview P (E\<lparr>delete_fails := x\<rparr>) pr ds) = trace (handlePreview P E pr ds)
       \<and> trace (handlePreview P (E\<lparr>delete_throws_in_turn := b\<rparr>) pr ds) = trace (handlePreview P E pr ds)
       \<and> filter (\<lambda>e. \<not> is_ConsoleWarn e) (fst (preview_request P E pr ds)) = trace (handlePreview P E pr ds)
       \<and> fst (preview_request P E pr ds)
           = (if delete_throws_in_turn E
              then take (Suc (index_where is_Delete (trace (handlePreview P E pr ds)))) (trace (handlePreview P E pr ds))
                   @ (case delete_fails E of None \<Rightarrow> [] | Some e \<Rightarrow> [ConsoleWarn e])
                   @ drop (Suc (index_where is_Delete (trace (handlePreview P E pr ds)))) (trace (handlePreview P E pr ds))
              else trace (handlePreview P E pr ds) @ (case delete_fails E of None \<Rightarrow> [] | Some e \<Rightarrow> [ConsoleWarn e]))"
proof -
  obtain typeConfig slugField d tp where
    tc: "typeConfigs P (p_type pr) = Some typeConfig"
    and tpc: "tp = (case tc_urlPrefix typeConfig of Some (PrefixFunction f) \<Rightarrow> [CallUrlPrefix] | _ \<Rightarrow> [])"
    and run: "handlePreview P E pr ds =
        finished
          ([CallGetSlugValue slugField, CallGenerateUrlSecret,
            Commit d ''sanity.preview-url-secret'', Delete cleanup_query] @ tp
             @ [NewURL (draftRoute P) (previewUrl P), WindowOpen href target,
                ToastPush StatusSuccess ''Preview opened'' ''Opening preview in new tab...''])
          (createOrReplace (clock E) d ds)
          (Some (cleanupExpiredSecrets E (createOrReplace (clock E) d ds)))"
    and tp: "tp = [] \<or> tp = [CallUrlPrefix]"
    using success_run [OF assms] by blast
  have order: "index_where is_Commit (trace (handlePreview P E pr ds)) < index_where is_Delete (trace (handlePreview P E pr ds))
       \<and> index_where is_Delete (trace (handlePreview P E pr ds)) < index_where is_NewURL (trace (handlePreview P E pr ds))
       \<and> index_where is_NewURL (trace (handlePreview P E pr ds)) < index_where is_WindowOpen (trace (handlePreview P E pr ds))
       \<and> index_where is_Delete (trace (handlePreview P E pr ds)) < index_where is_CallUrlPrefix (trace (handlePreview P E pr ds))
       \<and> list_all (\<lambda>e. \<not> is_CallUrlPrefix e \<and> \<not> is_NewURL e \<and> \<not> is_WindowOpen e)
           (take (Suc (index_where is_Delete (trace (handlePreview P E pr ds)))) (trace (handlePreview P E pr ds)))"
    using tp by (auto simp: run finished_def index_where_def)
  have called: "index_where is_CallUrlPrefix (trace (handlePreview P E pr ds)) = Suc (index_where is_Delete (trace (handlePreview P E pr ds)))
              \<and> index_where is_CallUrlPrefix (trace (handlePreview P E pr ds)) < index_where is_NewURL (trace (handlePreview P E pr ds))"
    if "typeConfigs P (p_type pr) = Some c" and "tc_urlPrefix c = Some (PrefixFunction f)" for c f
  proof -
    have "c = typeConfig" using that(1) tc by simp
    with that(2) tpc have "tp = [CallUrlPrefix]" by simp
    then show ?thesis
      by (simp add: run finished_def index_where_def)
  qed
  have nowarn: "filter (\<lambda>e. \<not> is_ConsoleWarn e) (trace (handlePreview P E pr ds)) = trace (handlePreview P E pr ds)"
    using tp by (auto simp: run finished_def)
  have own: "filter (\<lambda>e. \<not> is_ConsoleWarn e) (fst (preview_request P E pr ds)) = trace (handlePreview P E pr ds)"
    using preview_request_filtered [of "\<lambda>e. \<not> is_ConsoleWarn e" P E pr ds] nowarn by simp
  have bg: "background (handlePreview P E pr ds) \<noteq> None"
    by (simp add: run finished_def)
  have req: "fst (preview_request P E pr ds)
           = (if delete_throws_in_turn E
              then take (Suc (index_where is_Delete (trace (handlePreview P E pr ds)))) (trace (handlePreview P E pr ds))
                   @ (case delete_fails E of None \<Rightarrow> [] | Some e \<Rightarrow> [ConsoleWarn e])
                   @ drop (Suc (index_where is_Delete (trace (handlePreview P E pr ds)))) (trace (handlePreview P E pr ds))
              else trace (handlePreview P E pr ds) @ (case delete_fails E of None \<Rightarrow> [] | Some e \<Rightarrow> [ConsoleWarn e]))"
    using bg by (simp only: preview_request_trace if_False)
  have ind: "trace (handlePreview P (E\<lparr>delete_fails := x\<rparr>) pr ds) = trace (handlePreview P E pr ds)"
    using handler_ignores_delete [where P = P and x = x and E = E and pr = pr and ds = ds] by simp
  have mode: "trace (handlePreview P (E\<lparr>delete_throws_in_turn := b\<rparr>) pr ds) = trace (handlePreview P E pr ds)"
    by (rule handler_ignores_delete_mode)
  from order called own req ind mode show ?thesis
    by blast
qed

text \<open>
  A request for a product, whose prefix is a function of the document: the order of the
  events, and the whole request when \<open>client.delete\<close> throws in the caller's turn.
\<close>

theorem cleanup_dispatch_order_witness:
  "WindowOpen product_href ''_blank''
     \<in> set (trace (handlePreview product_plugin example_env product_props []))
   \<and> index_where is_Commit (trace (handlePreview product_plugin example_env product_props [])) = 2
   \<and> index_where is_Delete (trace (handlePreview product_plugin example_env product_props [])) = 3
   \<and> index_where is_CallUrlPrefix (trace (handlePreview product_plugin example_env product_props [])) = 4
   \<and> index_where is_NewURL (trace (handlePreview product_plugin example_env product_props [])) = 5
   \<and> index_where is_Delete (trace (handlePreview product_plugin example_env product_props []))
       < index_where is_CallUrlPrefix (trace (handlePreview product_plugin example_env product_props []))
   \<and> trace (handlePreview product_plugin (example_env\<lparr>delete_fails := Some (Error ''timeout'')\<rparr>)
        product_props [])
       = product_trace
   \<and> fst (preview_request product_plugin
             (example_env\<lparr>delete_fails := Some (Error ''timeout''), delete_throws_in_turn := True\<rparr>)
             product_props [])
       = take 4 product_trace @ [ConsoleWarn (Error ''timeout'')] @ drop 4 product_trace"
proof -
  have h: "WindowOpen product_href ''_blank''
     \<in> set (trace (handlePreview product_plugin example_env product_props []))"
    by (simp add: product_run product_trace_def)
  have i: "index_where is_Commit (trace (handlePreview product_plugin example_env product_props [])) = 2
   \<and> index_where is_Delete (trace (handlePreview product_plugin example_env product_props [])) = 3
   \<and> index_where is_CallUrlPrefix (trace (handlePreview product_plugin example_env product_props [])) = 4
   \<and> index_where is_NewURL (trace (handlePreview product_plugin example_env product_props [])) = 5"
    by (simp add: product_run product_trace_def index_where_def)
  have r: "fst (preview_request product_plugin
             (example_env\<lparr>delete_fails := Some (Error ''timeout''), delete_throws_in_turn := True\<rparr>)
             product_props [])
       = take 4 product_trace @ [ConsoleWarn (Error ''timeout'')] @ drop 4 product_trace"
    by (simp only: product_run_throws) (simp add: product_trace_def)
  from cleanup_dispatch_order [OF h, where x = "Some (Error ''timeout'')"] h i r show ?thesis
    by (simp add: product_run)
qed

text \<open>
  C6 as stated fails: in the worked request, which succeeds, the delete request of the
  cleanup is the fourth event and the construction of the URL the fifth, so the cleanup
  is not dispatched after the URL has been determined.
\<close>

theorem cleanup_before_url_counterexample:
  "WindowOpen example_href ''_blank''
     \<in> set (trace (handlePreview example_plugin example_env example_props []))
   \<and> index_where is_Delete (trace (handlePreview example_plugin example_env example_props [])) = 3
   \<and> index_where is_NewURL (trace (handlePreview example_plugin example_env example_props [])) = 4
   \<and> \<not> index_where is_NewURL (trace (handlePreview example_plugin example_env example_props []))
         < index_where is_Delete (trace (handlePreview example_plugin example_env example_props []))"
  by (simp add: example_run example_trace_def index_where_def)

text \<open>
  C8. The promise of \<open>cleanupExpiredSecrets\<close> resolves whatever the delete does. A
  rejected delete is logged with \<open>console.warn\<close> and leaves the dataset as it was;
  the handler's events, its dataset and its completion are the same as with a delete
  that succeeds, and the toasts of the whole request are the same: the failure neither
  reaches the user nor aborts the main flow.
\<close>

theorem cleanup_failure_contained:
  "rejection (cleanupExpiredSecrets E ds) = None
   \<and> settled (cleanupExpiredSecrets (E\<lparr>delete_fails := Some e\<rparr>) ds) = [ConsoleWarn e]
   \<and> dataset_after (cleanupExpiredSecrets (E\<lparr>delete_fails := Some e\<rparr>) ds) = ds
   \<and> trace (handlePreview P (E\<lparr>delete_fails := Some e\<rparr>) pr ds)
       = trace (handlePreview P (E\<lparr>delete_fails := None\<rparr>) pr ds)
   \<and> dataset (handlePreview P (E\<lparr>delete_fails := Some e\<rparr>) pr ds)
       = dataset (handlePreview P (E\<lparr>delete_fails := None\<rparr>) pr ds)
   \<and> thrown (handlePreview P (E\<lparr>delete_fails := Some e\<rparr>) pr ds) = None
   \<and> filter is_ToastPush (fst (preview_request P (E\<lparr>delete_fails := Some e\<rparr>) pr ds))
       = filter is_ToastPush (fst (preview_request P (E\<lparr>delete_fails := None\<rparr>) pr ds))"
proof -
  let ?E1 = "E\<lparr>delete_fails := Some e\<rparr>" and ?E0 = "E\<lparr>delete_fails := None\<rparr>"
  have t1: "trace (handlePreview P ?E1 pr ds) = trace (handlePreview P E pr ds)"
    and d1: "dataset (handlePreview P ?E1 pr ds) = dataset (handlePreview P E pr ds)"
    using handler_ignores_delete [where P = P and x = "Some e" and E = E and pr = pr and ds = ds] by simp_all
  have t0: "trace (handlePreview P ?E0 pr ds) = trace (handlePreview P E pr ds)"
    and d0: "dataset (handlePreview P ?E0 pr ds) = dataset (handlePreview P E pr ds)"
    using handler_ignores_delete [where P = P and x = None and E = E and pr = pr and ds = ds] by simp_all
  have toast: "filter is_ToastPush (fst (preview_request P ?E1 pr ds))
       = filter is_ToastPush (fst (preview_request P ?E0 pr ds))"
    by (simp add: preview_request_filtered t1 t0)
  have th: "thrown (handlePreview P ?E1 pr ds) = None"
    by (simp add: handlePreview_fields)
  show ?thesis
    using toast th
    by (simp add: rejection_cleanup settled_cleanup dataset_after_cleanup t1 t0 d1 d0)
qed

text \<open>The worked request with a delete rejected by \<open>timeout\<close>.\<close>

theorem cleanup_failure_contained_witness:
  "rejection (cleanupExpiredSecrets example_env example_dataset) = None
   \<and> settled (cleanupExpiredSecrets (example_env\<lparr>delete_fails := Some (Error ''timeout'')\<rparr>)
               example_dataset) = [ConsoleWarn (Error ''timeout'')]
   \<and> trace (handlePreview example_plugin (example_env\<lparr>delete_fails := Some (Error ''timeout'')\<rparr>)
              example_props [])
       = trace (handlePreview example_plugin (example_env\<lparr>delete_fails := None\<rparr>) example_props [])
   \<and> fst (preview_request example_plugin (example_env\<lparr>delete_fails := Some (Error ''timeout'')\<rparr>)
              example_props [])
       = example_trace @ [ConsoleWarn (Error ''timeout'')]"
  using cleanup_failure_contained
    [where E = example_env and ds = example_dataset and e = "Error ''timeout''"
       and P = example_plugin and pr = example_props]
    cleanup_failure_contained
    [where E = example_env and ds = "[]" and e = "Error ''timeout''"
       and P = example_plugin and pr = example_props]
  by (simp add: example_run_delete_fails)




end
